theory Spec2Isabelle
  imports Complex_Main "HOL-Library.Sublist"
begin

section \<open>Transcript Composer (src/app/page.tsx)\<close>

text \<open>
  A JavaScript string is a sequence of code units. It is modelled as a \<open>string\<close>;
  a \<open>char\<close> stands for one code unit below 256. The empty string is the only falsy
  string, \<open>startsWith\<close> is the prefix test and \<open>.length\<close> is the list length.
\<close>

definition smoothInterim :: "string \<Rightarrow> string \<Rightarrow> string" where
  "smoothInterim prevInterim nextInterim =
     (if prevInterim = [] then nextInterim
      else if nextInterim = [] then []
      else if prefix nextInterim prevInterim \<and> length prevInterim > length nextInterim
        then prevInterim
      else nextInterim)"

section \<open>JavaScript numbers\<close>

text \<open>
  A JavaScript number, and an element of a \<open>Float32Array\<close>, is NaN, an infinity or a
  finite value, here a real number; the sign of zero is not modelled. The operations
  below follow ECMAScript on the special values and give the exact result on finite
  ones; where the program's result is rounded, the rounding is applied to it
  explicitly.
\<close>

datatype jsnum = NaN | NegInf | PosInf | Fin real

fun Math_min :: "jsnum \<Rightarrow> jsnum \<Rightarrow> jsnum" where
  "Math_min NaN _ = NaN"
| "Math_min _ NaN = NaN"
| "Math_min NegInf _ = NegInf"
| "Math_min _ NegInf = NegInf"
| "Math_min PosInf y = y"
| "Math_min x PosInf = x"
| "Math_min (Fin a) (Fin b) = Fin (min a b)"

fun Math_max :: "jsnum \<Rightarrow> jsnum \<Rightarrow> jsnum" where
  "Math_max NaN _ = NaN"
| "Math_max _ NaN = NaN"
| "Math_max PosInf _ = PosInf"
| "Math_max _ PosInf = PosInf"
| "Math_max NegInf y = y"
| "Math_max x NegInf = x"
| "Math_max (Fin a) (Fin b) = Fin (max a b)"

text \<open>\<open>x < y\<close>: false as soon as one side is NaN.\<close>

fun js_lt :: "jsnum \<Rightarrow> jsnum \<Rightarrow> bool" where
  "js_lt NaN _ = False"
| "js_lt _ NaN = False"
| "js_lt _ NegInf = False"
| "js_lt NegInf _ = True"
| "js_lt PosInf _ = False"
| "js_lt _ PosInf = True"
| "js_lt (Fin a) (Fin b) = (a < b)"

fun js_add :: "jsnum \<Rightarrow> jsnum \<Rightarrow> jsnum" where
  "js_add NaN _ = NaN"
| "js_add _ NaN = NaN"
| "js_add PosInf NegInf = NaN"
| "js_add NegInf PosInf = NaN"
| "js_add PosInf _ = PosInf"
| "js_add _ PosInf = PosInf"
| "js_add NegInf _ = NegInf"
| "js_add _ NegInf = NegInf"
| "js_add (Fin a) (Fin b) = Fin (a + b)"

definition inf_of_sign :: "bool \<Rightarrow> jsnum" where
  "inf_of_sign positive = (if positive then PosInf else NegInf)"

fun js_mult :: "jsnum \<Rightarrow> jsnum \<Rightarrow> jsnum" where
  "js_mult NaN _ = NaN"
| "js_mult _ NaN = NaN"
| "js_mult (Fin a) (Fin b) = Fin (a * b)"
| "js_mult (Fin a) PosInf = (if a = 0 then NaN else inf_of_sign (a > 0))"
| "js_mult (Fin a) NegInf = (if a = 0 then NaN else inf_of_sign (a < 0))"
| "js_mult PosInf (Fin b) = (if b = 0 then NaN else inf_of_sign (b > 0))"
| "js_mult NegInf (Fin b) = (if b = 0 then NaN else inf_of_sign (b < 0))"
| "js_mult PosInf PosInf = PosInf"
| "js_mult NegInf NegInf = PosInf"
| "js_mult PosInf NegInf = NegInf"
| "js_mult NegInf PosInf = NegInf"

text \<open>Division; a zero divisor is taken as \<open>+0\<close>.\<close>

fun js_div :: "jsnum \<Rightarrow> jsnum \<Rightarrow> jsnum" where
  "js_div NaN _ = NaN"
| "js_div _ NaN = NaN"
| "js_div (Fin a) (Fin b) =
     (if b = 0 then (if a = 0 then NaN else inf_of_sign (a > 0)) else Fin (a / b))"
| "js_div (Fin a) PosInf = Fin 0"
| "js_div (Fin a) NegInf = Fin 0"
| "js_div PosInf (Fin b) = inf_of_sign (b \<ge> 0)"
| "js_div NegInf (Fin b) = inf_of_sign (b < 0)"
| "js_div PosInf _ = NaN"
| "js_div NegInf _ = NaN"

text \<open>
  Storing a number into an \<open>Int16Array\<close> (ToInt16): NaN and the infinities become 0; a
  finite value is truncated toward zero and wrapped modulo \<open>2 ^ 16\<close> into the signed
  range.
\<close>

definition js_trunc :: "real \<Rightarrow> int" where
  "js_trunc r = (if r \<ge> 0 then \<lfloor>r\<rfloor> else \<lceil>r\<rceil>)"

definition wrap16 :: "int \<Rightarrow> int" where
  "wrap16 n = (let m = n mod 2 ^ 16 in if m \<ge> 2 ^ 15 then m - 2 ^ 16 else m)"

fun ToInt16 :: "jsnum \<Rightarrow> int" where
  "ToInt16 (Fin r) = wrap16 (js_trunc r)"
| "ToInt16 _ = 0"

section \<open>PCM utilities (src/app/page.tsx)\<close>

text \<open>
  The body of the loop of \<open>floatToPCM16\<close>: the value stored at \<open>out[i]\<close> for
  \<open>f32[i] = x\<close>. The product of a single and 32767 or 32768 fits a double, so the
  products are exact and no rounding applies.
\<close>

definition pcm16_sample :: "jsnum \<Rightarrow> int" where
  "pcm16_sample x =
     (let s = Math_max (Fin (- 1)) (Math_min (Fin 1) x)
      in ToInt16 (if js_lt s (Fin 0) then js_mult s (Fin 32768) else js_mult s (Fin 32767)))"

function floatToPCM16_loop :: "jsnum list \<Rightarrow> nat \<Rightarrow> int list \<Rightarrow> int list" where
  "floatToPCM16_loop f32 i out =
     (if i < length f32
      then floatToPCM16_loop f32 (Suc i) (out[i := pcm16_sample (f32 ! i)])
      else out)"
  by pat_completeness auto
termination
  by (relation "measure (\<lambda>(f32, i, out). length f32 - i)") auto

declare floatToPCM16_loop.simps [simp del]

text \<open>\<open>new Int16Array(n)\<close> is filled with zeros.\<close>

definition floatToPCM16 :: "jsnum list \<Rightarrow> int list" where
  "floatToPCM16 f32 = floatToPCM16_loop f32 0 (replicate (length f32) 0)"

text \<open>
  The quantisation as the specification words it: clamp to \<open>[-1, 1]\<close>, scale a negative
  value by 32768 and a non-negative one by 32767, keep the integer part. NaN has no
  clamped value and is stored as 0.
\<close>

definition clamp_unit :: "jsnum \<Rightarrow> real option" where
  "clamp_unit x =
     (case x of NaN \<Rightarrow> None | NegInf \<Rightarrow> Some (- 1) | PosInf \<Rightarrow> Some 1
      | Fin r \<Rightarrow> Some (max (- 1) (min 1 r)))"

definition quantise_spec :: "jsnum \<Rightarrow> int" where
  "quantise_spec x =
     (case clamp_unit x of None \<Rightarrow> 0
      | Some c \<Rightarrow> js_trunc (if c < 0 then c * 32768 else c * 32767))"

section \<open>Resampling (src/app/page.tsx)\<close>

datatype js_error = RangeError | TypeError

text \<open>
  The arithmetic of \<open>downsampleTo24kHz\<close> rounds: every \<open>+\<close>, \<open>*\<close> and \<open>/\<close> gives
  the double nearest to the exact result, and a store into the \<open>Float32Array\<close> gives the
  nearest single. The two roundings belong to the runtime and are parameters of the
  functions below: \<open>rd\<close> takes the exact result of an operation on doubles to the
  double the operation returns, \<open>rf\<close> takes the value of a double to the single that is
  stored (both may overflow to an infinity). The counters \<open>i\<close>, \<open>acc\<close>, \<open>idx\<close> and
  \<open>count\<close> are integers counted up by one and are exact. The limit on the length of an
  array is not modelled.
\<close>

type_synonym rounding = "real \<Rightarrow> jsnum"

definition rounded :: "rounding \<Rightarrow> jsnum \<Rightarrow> jsnum" where
  "rounded rd x = (case x of Fin r \<Rightarrow> rd r | _ \<Rightarrow> x)"

fun Math_floor :: "jsnum \<Rightarrow> jsnum" where
  "Math_floor (Fin r) = Fin (of_int \<lfloor>r\<rfloor>)"
| "Math_floor x = x"

text \<open>
  The inner \<open>while\<close> loop of \<open>downsampleTo24kHz\<close>, on the loop variables
  \<open>acc\<close>, \<open>idx\<close>, \<open>sum\<close> and \<open>count\<close>.
\<close>

function downsample_inner ::
  "rounding \<Rightarrow> jsnum list \<Rightarrow> jsnum \<Rightarrow> nat \<Rightarrow> nat \<Rightarrow> jsnum \<Rightarrow> nat
     \<Rightarrow> nat \<times> nat \<times> jsnum \<times> nat" where
  "downsample_inner rd samples nextAcc acc idx sm count =
     (if js_lt (Fin (real acc)) nextAcc \<and> idx < length samples
      then downsample_inner rd samples nextAcc (Suc acc) (Suc idx)
             (rounded rd (js_add sm (samples ! idx))) (Suc count)
      else (acc, idx, sm, count))"
  by pat_completeness auto
termination
  by (relation "measure (\<lambda>(rd, samples, nextAcc, acc, idx, sm, count). length samples - idx)")
    auto

declare downsample_inner.simps [simp del]

text \<open>The outer \<open>for\<close> loop: one output sample per iteration.\<close>

function downsample_outer ::
  "rounding \<Rightarrow> rounding \<Rightarrow> jsnum list \<Rightarrow> jsnum \<Rightarrow> nat \<Rightarrow> nat \<Rightarrow> nat \<Rightarrow> nat \<Rightarrow> jsnum list
     \<Rightarrow> jsnum list" where
  "downsample_outer rd rf samples ratio newLen i acc idx out =
     (if i < newLen
      then (case downsample_inner rd samples
                   (rounded rd (js_mult (Fin (real (i + 1))) ratio)) acc idx (Fin 0) 0 of
              (acc', idx', sm, count) \<Rightarrow>
                downsample_outer rd rf samples ratio newLen (Suc i) acc' idx'
                  (out[i := rounded rf
                              (if count \<noteq> 0 then rounded rd (js_div sm (Fin (real count)))
                               else Fin 0)]))
      else out)"
  by pat_completeness auto
termination
  by (relation
      "measure (\<lambda>(rd, rf, samples, ratio, newLen, i, acc, idx, out). newLen - i)") auto

declare downsample_outer.simps [simp del]

text \<open>
  \<open>downsampleTo24kHz samples srcRate\<close>. \<open>new Float32Array(newLen)\<close> gives an empty
  array for NaN (and the loop does not run), an array of zeros for a length that is not
  negative, and throws a RangeError for a negative or infinite length.
\<close>

definition downsampleTo24kHz ::
  "rounding \<Rightarrow> rounding \<Rightarrow> jsnum list \<Rightarrow> jsnum \<Rightarrow> js_error + jsnum list" where
  "downsampleTo24kHz rd rf samples srcRate =
     (if srcRate = Fin 24000 then Inr samples
      else
        (let ratio = rounded rd (js_div srcRate (Fin 24000));
             newLen = Math_floor (rounded rd (js_div (Fin (real (length samples))) ratio))
         in case newLen of
              NaN \<Rightarrow> Inr []
            | Fin n \<Rightarrow>
                if n < 0 then Inl RangeError
                else Inr (downsample_outer rd rf samples ratio (nat \<lfloor>n\<rfloor>) 0 0 0
                            (replicate (nat \<lfloor>n\<rfloor>) (Fin 0)))
            | _ \<Rightarrow> Inl RangeError))"

text \<open>
  Box-filter decimation by two, as the specification words it: output \<open>i\<close> is the
  average of the source samples at the positions \<open>2 * i\<close> and \<open>2 * i + 1\<close>.
  \<open>block_mean\<close> is the exact average; \<open>rounded_mean\<close> is the average as double
  arithmetic computes it and a \<open>Float32Array\<close> holds it.
\<close>

definition block_mean :: "jsnum list \<Rightarrow> jsnum" where
  "block_mean ys = js_div (foldl js_add (Fin 0) ys) (Fin (real (length ys)))"

definition rounded_mean :: "rounding \<Rightarrow> rounding \<Rightarrow> jsnum list \<Rightarrow> jsnum" where
  "rounded_mean rd rf ys =
     rounded rf
       (rounded rd
          (js_div (foldl (\<lambda>s y. rounded rd (js_add s y)) (Fin 0) ys) (Fin (real (length ys)))))"

definition decimate2_spec :: "rounding \<Rightarrow> rounding \<Rightarrow> jsnum list \<Rightarrow> jsnum list" where
  "decimate2_spec rd rf xs =
     map (\<lambda>i. rounded_mean rd rf (take 2 (drop (2 * i) xs))) [0..<length xs div 2]"

section \<open>Frame accumulator (src/app/page.tsx, \<open>node.port.onmessage\<close>)\<close>

text \<open>
  The state the handler keeps between calls: \<open>pendingSamplesRef.current\<close> (\<open>None\<close> is
  \<open>null\<close>) and \<open>sampleRateRef.current\<close>. The handler is given the \<open>buffer\<close> of a
  \<open>samples\<close> message. Its result is the new state and the frame handed to
  \<open>base64FromPCM16\<close> for the \<open>client.audio.append\<close> message, if any; an exception of
  \<open>downsampleTo24kHz\<close> leaves the handler before any assignment.
\<close>

record accumulator =
  pendingSamples :: "jsnum list option"
  sampleRate :: jsnum

definition THRESHOLD_SAMPLES_24K :: nat where
  "THRESHOLD_SAMPLES_24K = 2400"

definition port_onmessage ::
  "rounding \<Rightarrow> rounding \<Rightarrow> accumulator \<Rightarrow> jsnum list
     \<Rightarrow> js_error + (accumulator \<times> int list option)" where
  "port_onmessage rd rf st f32 =
     (case downsampleTo24kHz rd rf f32 (sampleRate st) of
        Inl e \<Rightarrow> Inl e
      | Inr down \<Rightarrow>
          (let buf = (case pendingSamples st of
                        Some prev \<Rightarrow> if length prev > 0 then prev @ down else down
                      | None \<Rightarrow> down)
           in if length buf \<ge> THRESHOLD_SAMPLES_24K
              then Inr (st\<lparr>pendingSamples := None\<rparr>, Some (floatToPCM16 down))
              else Inr (st\<lparr>pendingSamples := Some buf\<rparr>, None)))"

section \<open>Values of parsed JSON\<close>

text \<open>
  What \<open>JSON.parse\<close> returns. A number is held as the text \<open>String\<close> gives for it: the
  relay only tests numbers for truth and turns them into text. An object is the list of
  its properties. \<open>JSON.parse\<close> itself belongs to the runtime and is a parameter
  \<open>parse\<close> of the handlers, \<open>None\<close> when it throws.
\<close>

datatype json =
    JNull
  | JBool bool
  | JNum string
  | JStr string
  | JArr "json list"
  | JObj "(string \<times> json) list"

text \<open>
  Reading a property, \<open>None\<close> for \<open>undefined\<close>. None of the names the relay reads is
  a property of a string, number, boolean or array. On \<open>null\<close> the read throws, or gives
  \<open>undefined\<close> under \<open>?.\<close>; the handlers test for \<open>null\<close> where it throws.
\<close>

fun get_prop :: "json \<Rightarrow> string \<Rightarrow> json option" where
  "get_prop (JObj kvs) k = map_of kvs k"
| "get_prop _ k = None"

fun truthy :: "json \<Rightarrow> bool" where
  "truthy JNull = False"
| "truthy (JBool b) = b"
| "truthy (JNum s) = (s \<noteq> ''0'' \<and> s \<noteq> ''NaN'')"
| "truthy (JStr s) = (s \<noteq> [])"
| "truthy (JArr _) = True"
| "truthy (JObj _) = True"

fun join_with :: "string \<Rightarrow> string list \<Rightarrow> string" where
  "join_with sep [] = []"
| "join_with sep [x] = x"
| "join_with sep (x # y # ys) = x @ sep @ join_with sep (y # ys)"

text \<open>
  \<open>String(v)\<close>, \<open>None\<close> when it throws a TypeError. An array is its elements joined
  by commas, \<open>null\<close> elements empty. An object without a property \<open>toString\<close> of its
  own is \<open>[object Object]\<close>; with one (a parsed value, never a function) the
  conversion to a primitive fails.
\<close>

fun js_String :: "json \<Rightarrow> string option" where
  "js_String JNull = Some ''null''"
| "js_String (JBool b) = Some (if b then ''true'' else ''false'')"
| "js_String (JNum s) = Some s"
| "js_String (JStr s) = Some s"
| "js_String (JArr xs) =
     map_option (join_with '','')
       (those (map (\<lambda>x. if x = JNull then Some [] else js_String x) xs))"
| "js_String (JObj kvs) =
     (if map_of kvs ''toString'' = None then Some ''[object Object]'' else None)"

text \<open>\<open>String(v || '')\<close> for a property \<open>v\<close> that may be \<open>undefined\<close>.\<close>

definition string_or_empty :: "json option \<Rightarrow> string option" where
  "string_or_empty v =
     (case v of Some x \<Rightarrow> if truthy x then js_String x else Some [] | None \<Rightarrow> Some [])"

text \<open>
  \<open>typeof v === 'string'\<close>, with the string: \<open>Some s\<close> when the property \<open>v\<close> is
  the string \<open>s\<close>.
\<close>

fun as_string :: "json option \<Rightarrow> string option" where
  "as_string (Some (JStr s)) = Some s"
| "as_string _ = None"

text \<open>\<open>String.prototype.trim\<close>, on the white space and line terminators below 256.\<close>

definition js_is_space :: "char \<Rightarrow> bool" where
  "js_is_space c \<longleftrightarrow>
     c \<in> set [CHR 0x09, CHR 0x0A, CHR 0x0B, CHR 0x0C, CHR 0x0D, CHR 0x20, CHR 0xA0]"

definition js_trim :: "string \<Rightarrow> string" where
  "js_trim s = rev (dropWhile js_is_space (rev (dropWhile js_is_space s)))"

text \<open>\<open>text.split('\n')\<close>: the pieces between line feeds, at least one piece.\<close>

fun split_nl :: "string \<Rightarrow> string \<Rightarrow> string list" where
  "split_nl cur [] = [rev cur]"
| "split_nl cur (c # cs) =
     (if c = CHR 0x0A then rev cur # split_nl [] cs else split_nl (c # cur) cs)"

section \<open>Relay server (src/unnamed/part_000)\<close>

text \<open>
  The messages the relay writes. \<open>ResponseCreate\<close> stands for the fixed
  \<open>response.create\<close> object of the flush branch. Console output is not modelled.
\<close>

datatype upstream_msg = SessionUpdate json | AudioAppend string | BufferCommit | ResponseCreate

datatype channel = Interim | Final

datatype client_msg = Transcript channel string | Pong "json option" | Status string

text \<open>The two variables declared at module level, outside the connection handler.\<close>

record relay_globals =
  approxB64SinceCommit :: nat
  activeResponse :: bool

definition MIN_B64_FOR_100MS :: nat where
  "MIN_B64_FOR_100MS = 6400"

text \<open>
  The \<open>readyState\<close> of the upstream socket \<open>openai\<close>, which the relay opens itself:
  connecting until its \<open>open\<close> event, then open, and closed once \<open>closeAll\<close> has run
  (closing and closed are one state here).
\<close>

datatype ready_state = CONNECTING | OPEN | CLOSED

text \<open>
  What one run of the \<open>connection\<close> callback owns: its \<open>language\<close> variable and its
  two sockets, \<open>openai\<close> and \<open>client\<close>. \<open>to_openai\<close> and \<open>to_client\<close> are the
  messages written to the sockets so far.
\<close>

record connection =
  language :: json
  openai_state :: ready_state
  to_openai :: "upstream_msg list"
  to_client :: "client_msg list"
  sockets_closed :: bool

text \<open>
  \<open>openai.send\<close>, as the socket library has it: it throws (\<open>None\<close>) while the socket
  is connecting, writes the message when the socket is open, and returns without writing
  it when the socket is closing or closed.
\<close>

definition openai_send :: "upstream_msg \<Rightarrow> connection \<Rightarrow> connection option" where
  "openai_send x cn =
     (case openai_state cn of
        CONNECTING \<Rightarrow> None
      | OPEN \<Rightarrow> Some (cn\<lparr>to_openai := to_openai cn @ [x]\<rparr>)
      | CLOSED \<Rightarrow> Some cn)"

text \<open>
  \<open>client.send\<close>: the socket of an accepted connection is open from the start, and the
  message is written.
\<close>

definition client_send :: "client_msg \<Rightarrow> connection \<Rightarrow> connection" where
  "client_send x cn = cn\<lparr>to_client := to_client cn @ [x]\<rparr>"

definition new_connection :: connection where
  "new_connection =
     \<lparr>language = JStr ''en'', openai_state = CONNECTING, to_openai = [], to_client = [],
      sockets_closed = False\<rparr>"

text \<open>The \<open>open\<close> event of the upstream socket: the socket is open and the handler runs.\<close>

definition openai_on_open :: "connection \<Rightarrow> connection" where
  "openai_on_open cn =
     (let cn1 = cn\<lparr>openai_state := OPEN\<rparr>
      in case openai_send (SessionUpdate (language cn1)) cn1 of
           Some cn2 \<Rightarrow> cn2
         | None \<Rightarrow> cn1)"

definition openai_on_error :: "connection \<Rightarrow> connection" where
  "openai_on_error cn = client_send (Status ''provider-error'') cn"

definition closeAll :: "connection \<Rightarrow> connection" where
  "closeAll cn = cn\<lparr>openai_state := CLOSED, sockets_closed := True\<rparr>"

text \<open>
  \<open>client.on('message')\<close>. A text that does not parse, and the value \<open>null\<close> (reading
  \<open>msg.type\<close> throws), end in the outer \<open>catch\<close>, which ignores them. So does an
  \<open>openai.send\<close> that throws, with the assignments made before it kept; the send of the
  config branch has a \<open>try\<close> of its own.
\<close>

definition client_on_message ::
  "(string \<Rightarrow> json option) \<Rightarrow> string \<Rightarrow> relay_globals \<times> connection
     \<Rightarrow> relay_globals \<times> connection" where
  "client_on_message parse raw st =
     (case st of (g, cn) \<Rightarrow>
      (case parse raw of
         None \<Rightarrow> (g, cn)
       | Some msg \<Rightarrow>
          if msg = JNull then (g, cn)
          else
          (let ty = get_prop msg ''type'' in
           if ty = Some (JStr ''config'')
              \<and> (case get_prop msg ''language'' of Some l \<Rightarrow> truthy l | None \<Rightarrow> False)
           then (case get_prop msg ''language'' of
                   Some l \<Rightarrow>
                     (let cn1 = cn\<lparr>language := l\<rparr>
                      in case openai_send (SessionUpdate l) cn1 of
                           Some cn2 \<Rightarrow> (g, cn2)
                         | None \<Rightarrow> (g, cn1))
                 | None \<Rightarrow> (g, cn))
           else if ty = Some (JStr ''client.audio.append'')
              \<and> as_string (get_prop msg ''audio'') \<noteq> None
           then (case as_string (get_prop msg ''audio'') of
                   Some a \<Rightarrow>
                     (let g1 = g\<lparr>approxB64SinceCommit := approxB64SinceCommit g + length a\<rparr>
                      in case openai_send (AudioAppend a) cn of
                           Some cn1 \<Rightarrow> (g1, cn1)
                         | None \<Rightarrow> (g1, cn))
                 | None \<Rightarrow> (g, cn))
           else if ty = Some (JStr ''client.flush'')
           then (if approxB64SinceCommit g < MIN_B64_FOR_100MS then (g, cn)
                 else (case openai_send BufferCommit cn of
                         None \<Rightarrow> (g, cn)
                       | Some cn1 \<Rightarrow>
                           if \<not> activeResponse g
                           then (let g1 = g\<lparr>activeResponse := True\<rparr>
                                 in case openai_send ResponseCreate cn1 of
                                      None \<Rightarrow> (g1, cn1)
                                    | Some cn2 \<Rightarrow> (g1\<lparr>approxB64SinceCommit := 0\<rparr>, cn2))
                           else (g, cn1)))
           else if ty = Some (JStr ''ping'')
           then (g, client_send (Pong (get_prop msg ''t'')) cn)
           else (g, cn))))"

text \<open>
  The text of a \<open>content_part\<close> event: \<open>p = m.part || {}\<close>, then the first of
  \<open>p.text\<close>, \<open>p.content\<close>, \<open>p.transcript\<close> that is a string, else the empty string.
\<close>

definition part_text :: "json \<Rightarrow> string" where
  "part_text m =
     (let p = (case get_prop m ''part'' of
                 Some v \<Rightarrow> if truthy v then v else JObj []
               | None \<Rightarrow> JObj [])
      in case as_string (get_prop p ''text'') of
           Some s \<Rightarrow> s
         | None \<Rightarrow>
            (case as_string (get_prop p ''content'') of
               Some s \<Rightarrow> s
             | None \<Rightarrow>
                (case as_string (get_prop p ''transcript'') of
                   Some s \<Rightarrow> s
                 | None \<Rightarrow> [])))"

text \<open>\<open>if (t) client.send({ type: 'transcript', channel, text: t })\<close>, for a given text.\<close>

definition send_interim :: "string \<Rightarrow> connection \<Rightarrow> connection" where
  "send_interim t cn = (if t \<noteq> [] then client_send (Transcript Interim t) cn else cn)"

definition send_final :: "string \<Rightarrow> connection \<Rightarrow> connection" where
  "send_final t cn = (if t \<noteq> [] then client_send (Transcript Final t) cn else cn)"

text \<open>
  \<open>const t = String(v || ''); if (t) client.send(interim t)\<close>, and the same with
  \<open>.trim()\<close> for a final; \<open>None\<close> when \<open>String\<close> throws.
\<close>

definition interim_of :: "json option \<Rightarrow> connection \<Rightarrow> connection option" where
  "interim_of v cn = map_option (\<lambda>t. send_interim t cn) (string_or_empty v)"

definition final_of :: "json option \<Rightarrow> connection \<Rightarrow> connection option" where
  "final_of v cn = map_option (\<lambda>t. send_final (js_trim t) cn) (string_or_empty v)"

text \<open>
  The text of a \<open>response.completed\<close> event whose \<open>response.output_text\<close> is a
  non-empty array: \<open>map((x) => x?.content || '').join(' ')\<close>, trimmed.
\<close>

definition completed_text :: "json list \<Rightarrow> string option" where
  "completed_text xs =
     map_option (\<lambda>ys. js_trim (join_with '' '' ys))
       (those (map (\<lambda>x. string_or_empty (get_prop x ''content'')) xs))"

text \<open>
  How the body of the \<open>for\<close> loop over the lines ends: it falls through to the next
  line, it returns from the handler, or it throws into the handler's \<open>catch\<close>.
\<close>

datatype flow = Next | Return | Throw js_error

text \<open>
  The body of the loop for one parsed line \<open>m\<close>. Reading \<open>m.type\<close> of \<open>null\<close>
  throws; a \<open>String\<close> that throws leaves the state as the statements before it made it.
\<close>

definition provider_event ::
  "json \<Rightarrow> relay_globals \<times> connection \<Rightarrow> flow \<times> relay_globals \<times> connection" where
  "provider_event m st =
     (case st of (g, cn) \<Rightarrow>
      if m = JNull then (Throw TypeError, g, cn)
      else
        (let ty = get_prop m ''type'';
             g1 = (if ty = Some (JStr ''response.created'')
                   then g\<lparr>activeResponse := True\<rparr> else g);
             g2 = (if ty = Some (JStr ''response.done'')
                   then g1\<lparr>activeResponse := False\<rparr> else g1);
             cn1 = (if ty = Some (JStr ''response.content_part.added'')
                    then send_interim (part_text m) cn else cn)
         in
         if ty = Some (JStr ''response.content_part.done'')
         then (Return, g2,
               (if part_text m \<noteq> []
                then client_send (Transcript Final (js_trim (part_text m))) cn1 else cn1))
         else if ty = Some (JStr ''error'') \<or> ty = Some (JStr ''response.error'')
         then (Return, g2, cn1)
         else
           (case (if ty = Some (JStr ''response.audio_transcript.delta'')
                  then interim_of (get_prop m ''delta'') cn1
                  else if ty = Some (JStr ''response.audio_transcript.done'')
                  then final_of (get_prop m ''text'') cn1
                  else Some cn1) of
              None \<Rightarrow> (Throw TypeError, g2, cn1)
            | Some cn2 \<Rightarrow>
               (case (if ty = Some (JStr ''response.text.delta'')
                      then interim_of (get_prop m ''delta'') cn2
                      else if ty = Some (JStr ''response.text.done'')
                      then final_of (get_prop m ''text'') cn2
                      else if ty = Some (JStr ''response.output_text.delta'')
                      then interim_of (get_prop m ''delta'') cn2
                      else if ty = Some (JStr ''response.delta'')
                           \<and> Option.bind (get_prop m ''delta'') (\<lambda>d. get_prop d ''type'')
                               = Some (JStr ''output_text.delta'')
                      then interim_of
                             (Option.bind (get_prop m ''delta'') (\<lambda>d. get_prop d ''text'')) cn2
                      else if ty = Some (JStr ''response.output_text.done'')
                      then final_of (get_prop m ''text'') cn2
                      else if ty = Some (JStr ''response.completed'')
                      then (case Option.bind (get_prop m ''response'')
                                   (\<lambda>r. get_prop r ''output_text'') of
                              Some (JArr xs) \<Rightarrow>
                                if xs \<noteq> []
                                then map_option (\<lambda>t. send_final t cn2) (completed_text xs)
                                else Some cn2
                            | _ \<Rightarrow> Some cn2)
                      else Some cn2) of
                  None \<Rightarrow> (Throw TypeError, g2, cn2)
                | Some cn3 \<Rightarrow> (Next, g2, cn3)))))"

text \<open>
  The \<open>for\<close> loop: a line that does not parse breaks out of it; a \<open>return\<close> or an
  exception in the body ends the handler, whose \<open>catch\<close> only logs.
\<close>

fun openai_lines ::
  "(string \<Rightarrow> json option) \<Rightarrow> string list \<Rightarrow> relay_globals \<times> connection
     \<Rightarrow> relay_globals \<times> connection" where
  "openai_lines parse [] st = st"
| "openai_lines parse (line # rest) st =
     (case parse line of
        None \<Rightarrow> st
      | Some m \<Rightarrow>
          (case provider_event m st of
             (Next, st') \<Rightarrow> openai_lines parse rest st'
           | (_, st') \<Rightarrow> st'))"

definition nonblank_lines :: "string \<Rightarrow> string list" where
  "nonblank_lines text = filter (\<lambda>l. length (js_trim l) > 0) (split_nl [] text)"

definition openai_on_message ::
  "(string \<Rightarrow> json option) \<Rightarrow> string \<Rightarrow> relay_globals \<times> connection
     \<Rightarrow> relay_globals \<times> connection" where
  "openai_on_message parse data st = openai_lines parse (nonblank_lines data) st"

text \<open>
  The server: one pair of module variables, and the connections accepted so far, by a
  number. A \<open>connection\<close> event creates the connection's own state and leaves the module
  variables as they are; the \<open>close\<close> of either socket runs \<open>closeAll\<close>. An event of
  an open connection runs its handler on the module variables and on that connection's
  own state; a closed connection gets no more events.
\<close>

record server =
  globals :: relay_globals
  conns :: "nat \<Rightarrow> connection option"

definition server_start :: server where
  "server_start =
     \<lparr>globals = \<lparr>approxB64SinceCommit = 0, activeResponse = False\<rparr>, conns = (\<lambda>c. None)\<rparr>"

definition on_connection :: "nat \<Rightarrow> server \<Rightarrow> server" where
  "on_connection c srv = srv\<lparr>conns := (conns srv)(c \<mapsto> new_connection)\<rparr>"

definition on_openai_open :: "nat \<Rightarrow> server \<Rightarrow> server" where
  "on_openai_open c srv =
     (case conns srv c of
        None \<Rightarrow> srv
      | Some cn \<Rightarrow>
          if sockets_closed cn then srv
          else srv\<lparr>conns := (conns srv)(c \<mapsto> openai_on_open cn)\<rparr>)"

definition on_close :: "nat \<Rightarrow> server \<Rightarrow> server" where
  "on_close c srv =
     (case conns srv c of
        None \<Rightarrow> srv
      | Some cn \<Rightarrow> srv\<lparr>conns := (conns srv)(c \<mapsto> closeAll cn)\<rparr>)"

definition on_client_message ::
  "(string \<Rightarrow> json option) \<Rightarrow> nat \<Rightarrow> string \<Rightarrow> server \<Rightarrow> server" where
  "on_client_message parse c raw srv =
     (case conns srv c of
        None \<Rightarrow> srv
      | Some cn \<Rightarrow>
          if sockets_closed cn then srv
          else (case client_on_message parse raw (globals srv, cn) of
                  (g', cn') \<Rightarrow> srv\<lparr>globals := g', conns := (conns srv)(c \<mapsto> cn')\<rparr>))"

definition on_openai_message ::
  "(string \<Rightarrow> json option) \<Rightarrow> nat \<Rightarrow> string \<Rightarrow> server \<Rightarrow> server" where
  "on_openai_message parse c data srv =
     (case conns srv c of
        None \<Rightarrow> srv
      | Some cn \<Rightarrow>
          if sockets_closed cn then srv
          else (case openai_on_message parse data (globals srv, cn) of
                  (g', cn') \<Rightarrow> srv\<lparr>globals := g', conns := (conns srv)(c \<mapsto> cn')\<rparr>))"

section \<open>Event shapes named by the specification\<close>

text \<open>
  The specification speaks of delta-shaped and done-shaped provider events carrying a
  text \<open>t\<close>. A \<open>content_part\<close> event carries \<open>t\<close> when its \<open>part\<close> is an object
  and \<open>t\<close> is the first string among its properties \<open>text\<close>, \<open>content\<close> and
  \<open>transcript\<close>. A delta-shaped event is a transcript, text or output-text delta whose
  \<open>delta\<close> is the string \<open>t\<close>, a \<open>response.delta\<close> whose \<open>delta\<close> is an
  \<open>output_text.delta\<close> object with text \<open>t\<close>, or a \<open>content_part.added\<close> carrying
  \<open>t\<close>. A done-shaped event is a transcript, text or output-text \<open>done\<close> whose
  \<open>text\<close> is the string \<open>t\<close>, or a \<open>content_part.done\<close> carrying \<open>t\<close>.
\<close>

definition part_carries :: "json \<Rightarrow> string \<Rightarrow> bool" where
  "part_carries m t =
     (case get_prop m ''part'' of
        Some (JObj kvs) \<Rightarrow>
          (case as_string (map_of kvs ''text'') of
             Some s \<Rightarrow> s = t
           | None \<Rightarrow>
              (case as_string (map_of kvs ''content'') of
                 Some s \<Rightarrow> s = t
               | None \<Rightarrow> as_string (map_of kvs ''transcript'') = Some t))
      | _ \<Rightarrow> False)"

definition delta_shaped :: "json \<Rightarrow> string \<Rightarrow> bool" where
  "delta_shaped m t =
     (let ty = get_prop m ''type'' in
      if ty = Some (JStr ''response.audio_transcript.delta'')
         \<or> ty = Some (JStr ''response.text.delta'')
         \<or> ty = Some (JStr ''response.output_text.delta'')
      then get_prop m ''delta'' = Some (JStr t)
      else if ty = Some (JStr ''response.delta'')
      then (case get_prop m ''delta'' of
              Some d \<Rightarrow> get_prop d ''type'' = Some (JStr ''output_text.delta'')
                        \<and> get_prop d ''text'' = Some (JStr t)
            | None \<Rightarrow> False)
      else if ty = Some (JStr ''response.content_part.added'')
      then part_carries m t
      else False)"

definition done_shaped :: "json \<Rightarrow> string \<Rightarrow> bool" where
  "done_shaped m t =
     (let ty = get_prop m ''type'' in
      if ty = Some (JStr ''response.audio_transcript.done'')
         \<or> ty = Some (JStr ''response.text.done'')
         \<or> ty = Some (JStr ''response.output_text.done'')
      then get_prop m ''text'' = Some (JStr t)
      else if ty = Some (JStr ''response.content_part.done'')
      then part_carries m t
      else False)"

text \<open>
  Processing a sequence of parsed events one after the other, as the specification has
  it: \<open>body_step\<close> is what the loop body does to the state for one event, and
  \<open>all_continue\<close> says that the body ends by falling through to the next line on each
  event in turn, that is, none of them returns from the handler (as a
  \<open>content_part.done\<close> and an error event do) or throws.
\<close>

definition body_step :: "relay_globals \<times> connection \<Rightarrow> json \<Rightarrow> relay_globals \<times> connection" where
  "body_step st m = snd (provider_event m st)"

fun all_continue :: "json list \<Rightarrow> relay_globals \<times> connection \<Rightarrow> bool" where
  "all_continue [] st = True"
| "all_continue (m # ms) st =
     (fst (provider_event m st) = Next \<and> all_continue ms (body_step st m))"

section \<open>Properties of the Transcript Composer\<close>

text \<open>
  C9. \<open>smoothInterim prev next\<close>: an empty \<open>prev\<close> gives \<open>next\<close>; otherwise an empty
  \<open>next\<close> gives the empty string; otherwise, when \<open>next\<close> is a proper prefix of
  \<open>prev\<close>, the result is \<open>prev\<close>; otherwise it is \<open>next\<close>. The four examples of the
  specification are instances.
\<close>

theorem smoothInterim_cases:
  "smoothInterim prev nxt =
     (if prev = [] then nxt
      else if nxt = [] then []
      else if strict_prefix nxt prev then prev
      else nxt)
   \<and> smoothInterim '''' ''x'' = ''x''
   \<and> smoothInterim ''x'' '''' = ''''
   \<and> smoothInterim ''hello wor'' ''hello'' = ''hello wor''
   \<and> smoothInterim ''hi the'' ''hello'' = ''hello''"
proof -
  have proper: "strict_prefix nxt prev \<longleftrightarrow> prefix nxt prev \<and> length nxt < length prev"
    by (auto simp: strict_prefix_def prefix_def)
  show ?thesis
    by (simp add: smoothInterim_def proper)
qed

section \<open>Properties of the PCM utilities\<close>

lemma floatToPCM16_loop_length:
  "length (floatToPCM16_loop f32 i out) = length out"
proof (induction f32 i out rule: floatToPCM16_loop.induct)
  case (1 f32 i out)
  show ?case
  proof (cases "i < length f32")
    case True
    with "1" show ?thesis by (simp add: floatToPCM16_loop.simps [of f32 i out])
  next
    case False
    then show ?thesis by (simp add: floatToPCM16_loop.simps [of f32 i out])
  qed
qed

lemma floatToPCM16_loop_nth:
  "length out = length f32 \<Longrightarrow> j < length f32 \<Longrightarrow>
   floatToPCM16_loop f32 i out ! j = (if i \<le> j then pcm16_sample (f32 ! j) else out ! j)"
proof (induction f32 i out rule: floatToPCM16_loop.induct)
  case (1 f32 i out)
  show ?case
  proof (cases "i < length f32")
    case True
    have "floatToPCM16_loop f32 i out ! j =
          floatToPCM16_loop f32 (Suc i) (out[i := pcm16_sample (f32 ! i)]) ! j"
      using True by (simp add: floatToPCM16_loop.simps [of f32 i out])
    also have "\<dots> = (if Suc i \<le> j then pcm16_sample (f32 ! j)
                     else out[i := pcm16_sample (f32 ! i)] ! j)"
      using "1.IH" [OF True] "1.prems" by simp
    also have "\<dots> = (if i \<le> j then pcm16_sample (f32 ! j) else out ! j)"
      using "1.prems" True by (cases "i = j") auto
    finally show ?thesis .
  next
    case False
    then show ?thesis
      using "1.prems" by (simp add: floatToPCM16_loop.simps [of f32 i out])
  qed
qed

lemma floatToPCM16_map: "floatToPCM16 f32 = map pcm16_sample f32"
  by (rule nth_equalityI)
     (simp_all add: floatToPCM16_def floatToPCM16_loop_length floatToPCM16_loop_nth)

lemma js_trunc_unit_neg:
  assumes "- 1 \<le> c" "c < 0"
  shows "- 32768 \<le> js_trunc (c * 32768)" "js_trunc (c * 32768) \<le> 0"
proof -
  have "- 32768 \<le> c * 32768" "c * 32768 \<le> 0" using assms by auto
  then show "- 32768 \<le> js_trunc (c * 32768)" "js_trunc (c * 32768) \<le> 0"
    by (auto simp: js_trunc_def le_ceiling_iff ceiling_le_iff le_floor_iff)
qed

lemma js_trunc_unit_pos:
  assumes "0 \<le> c" "c \<le> 1"
  shows "0 \<le> js_trunc (c * 32767)" "js_trunc (c * 32767) \<le> 32767"
proof -
  have "0 \<le> c * 32767" "c * 32767 \<le> 32767" using assms by auto
  then show "0 \<le> js_trunc (c * 32767)" "js_trunc (c * 32767) \<le> 32767"
    by (auto simp: js_trunc_def le_floor_iff floor_le_iff)
qed

lemma wrap16_id:
  assumes lo: "- 32768 \<le> n" and hi: "n \<le> 32767"
  shows "wrap16 n = n"
proof (cases "0 \<le> n")
  case True
  then have "n mod 65536 = n" using hi by simp
  then show ?thesis using hi by (simp add: wrap16_def Let_def)
next
  case False
  have "(n + 65536) mod 65536 = n + 65536"
    using lo False by (intro mod_pos_pos_trivial) auto
  moreover have "(n + 65536) mod 65536 = n mod 65536"
    by simp
  ultimately have "n mod 65536 = n + 65536"
    by simp
  then show ?thesis using lo False by (simp add: wrap16_def Let_def)
qed

lemma quantise_spec_range: "- 32768 \<le> quantise_spec x \<and> quantise_spec x \<le> 32767"
proof (cases "clamp_unit x")
  case None
  then show ?thesis by (simp add: quantise_spec_def)
next
  case (Some c)
  then have c: "- 1 \<le> c" "c \<le> 1"
    by (auto simp: clamp_unit_def split: jsnum.splits)
  show ?thesis
  proof (cases "c < 0")
    case True
    with js_trunc_unit_neg [OF c(1) True] Some show ?thesis
      by (simp add: quantise_spec_def)
  next
    case False
    then have "0 \<le> c" by simp
    from js_trunc_unit_pos [OF this c(2)] Some False show ?thesis
      by (simp add: quantise_spec_def)
  qed
qed

lemma pcm16_sample_spec: "pcm16_sample x = quantise_spec x"
proof (cases x)
  case (Fin r)
  define c where "c = max (- 1) (min 1 r)"
  have s: "Math_max (Fin (- 1)) (Math_min (Fin 1) (Fin r)) = Fin c"
    by (simp add: c_def)
  have "pcm16_sample (Fin r) = wrap16 (js_trunc (if c < 0 then c * 32768 else c * 32767))"
    unfolding pcm16_sample_def s by (simp add: Let_def)
  moreover have q: "quantise_spec (Fin r) = js_trunc (if c < 0 then c * 32768 else c * 32767)"
    unfolding quantise_spec_def clamp_unit_def c_def by simp
  moreover have "wrap16 (quantise_spec (Fin r)) = quantise_spec (Fin r)"
    using quantise_spec_range [of "Fin r"] by (simp add: wrap16_id)
  ultimately show ?thesis using Fin by simp
next
  case NaN
  then show ?thesis by (simp add: pcm16_sample_def quantise_spec_def clamp_unit_def)
next
  case NegInf
  then show ?thesis
    by (simp add: pcm16_sample_def quantise_spec_def clamp_unit_def js_trunc_def wrap16_def)
next
  case PosInf
  then show ?thesis
    by (simp add: pcm16_sample_def quantise_spec_def clamp_unit_def js_trunc_def wrap16_def)
qed

text \<open>
  C8. \<open>floatToPCM16\<close> keeps the length; each output is the input clamped to \<open>[-1, 1]\<close>,
  scaled by 32768 when negative and by 32767 otherwise, and lies in the signed 16-bit
  range; \<open>[1, 0.5, 0, -0.5, -1]\<close> gives five outputs in that range.
\<close>

theorem floatToPCM16_quantises:
  "length (floatToPCM16 f32) = length f32
   \<and> (\<forall>i < length f32.
        floatToPCM16 f32 ! i = quantise_spec (f32 ! i)
        \<and> - 32768 \<le> floatToPCM16 f32 ! i \<and> floatToPCM16 f32 ! i \<le> 32767)
   \<and> floatToPCM16 [Fin 1, Fin 0.5, Fin 0, Fin (- 0.5), Fin (- 1)]
       = [32767, 16383, 0, - 16384, - 32768]"
proof -
  have ex: "map quantise_spec [Fin 1, Fin 0.5, Fin 0, Fin (- 0.5), Fin (- 1)]
            = [32767, 16383, 0, - 16384, - 32768]"
    by (simp add: quantise_spec_def clamp_unit_def js_trunc_def)
  have m: "floatToPCM16 f32 = map quantise_spec f32" for f32
    by (simp add: floatToPCM16_map pcm16_sample_spec)
  show ?thesis
    using ex quantise_spec_range by (simp add: m del: list.map)
qed

theorem floatToPCM16_quantises_witness:
  "length (floatToPCM16 [Fin 2, Fin (- 0.5), NaN]) = 3
   \<and> (1::nat) < length [Fin 2, Fin (- 0.5), NaN]
   \<and> floatToPCM16 [Fin 2, Fin (- 0.5), NaN] ! 1 = - 16384
   \<and> floatToPCM16 [Fin 2, Fin (- 0.5), NaN] ! 0 = 32767
   \<and> floatToPCM16 [Fin 2, Fin (- 0.5), NaN] ! 2 = 0"
  using floatToPCM16_quantises [of "[Fin 2, Fin (- 0.5), NaN]"]
  by (simp add: quantise_spec_def clamp_unit_def js_trunc_def)

section \<open>Properties of the resampler\<close>

lemma downsample_inner_two:
  assumes "Suc idx < length xs" and "nextAcc = Fin (real (2 * i + 2))"
  shows "downsample_inner rd xs nextAcc (2 * i) idx (Fin 0) 0
         = (2 * i + 2, idx + 2,
            rounded rd (js_add (rounded rd (js_add (Fin 0) (xs ! idx))) (xs ! Suc idx)), 2)"
proof -
  have "downsample_inner rd xs nextAcc (2 * i) idx (Fin 0) 0
        = downsample_inner rd xs nextAcc (Suc (2 * i)) (Suc idx)
            (rounded rd (js_add (Fin 0) (xs ! idx))) (Suc 0)"
    using assms by (subst downsample_inner.simps) simp
  also have "\<dots> = downsample_inner rd xs nextAcc (Suc (Suc (2 * i))) (Suc (Suc idx))
            (rounded rd (js_add (rounded rd (js_add (Fin 0) (xs ! idx))) (xs ! Suc idx)))
            (Suc (Suc 0))"
    using assms by (subst downsample_inner.simps) simp
  also have "\<dots> = (2 * i + 2, idx + 2,
            rounded rd (js_add (rounded rd (js_add (Fin 0) (xs ! idx))) (xs ! Suc idx)), 2)"
    using assms by (subst downsample_inner.simps) (simp add: numeral_2_eq_2)
  finally show ?thesis .
qed

lemma rounded_mean_pair:
  assumes "Suc (2 * i) < length xs"
  shows "rounded_mean rd rf (take 2 (drop (2 * i) xs))
         = rounded rf (rounded rd (js_div
             (rounded rd (js_add (rounded rd (js_add (Fin 0) (xs ! (2 * i)))) (xs ! Suc (2 * i))))
             (Fin 2)))"
proof -
  have "drop (2 * i) xs = xs ! (2 * i) # xs ! Suc (2 * i) # drop (Suc (Suc (2 * i))) xs"
    using assms by (simp add: Cons_nth_drop_Suc)
  then have "take 2 (drop (2 * i) xs) = [xs ! (2 * i), xs ! Suc (2 * i)]"
    by (simp add: numeral_2_eq_2)
  then show ?thesis by (simp add: rounded_mean_def)
qed

lemma downsample_outer_two:
  assumes "2 * n \<le> length xs" "length out = n" "i \<le> n"
    and exact: "\<And>j. j < n \<Longrightarrow> rd (real (j + 1) * 2) = Fin (real (2 * j + 2))"
  shows "downsample_outer rd rf xs (Fin 2) n i (2 * i) (2 * i) out
         = take i out @ map (\<lambda>k. rounded_mean rd rf (take 2 (drop (2 * k) xs))) [i..<n]"
  using assms(1-3)
proof (induction "n - i" arbitrary: i out)
  case 0
  then show ?case by (subst downsample_outer.simps) simp
next
  case (Suc d)
  then have lt: "i < n" by simp
  then have idx: "Suc (2 * i) < length xs" using Suc.prems(1) by simp
  define v where "v = rounded rf (rounded rd (js_div
             (rounded rd (js_add (rounded rd (js_add (Fin 0) (xs ! (2 * i)))) (xs ! Suc (2 * i))))
             (Fin 2)))"
  have step: "downsample_outer rd rf xs (Fin 2) n i (2 * i) (2 * i) out
              = downsample_outer rd rf xs (Fin 2) n (Suc i) (2 * Suc i) (2 * Suc i) (out[i := v])"
  proof -
    have next_acc: "rounded rd (js_mult (Fin (real (i + 1))) (Fin 2)) = Fin (real (2 * i + 2))"
      using exact [OF lt] by (simp add: rounded_def)
    have "downsample_inner rd xs (rounded rd (js_mult (Fin (real (i + 1))) (Fin 2)))
            (2 * i) (2 * i) (Fin 0) 0
          = (2 * i + 2, 2 * i + 2,
             rounded rd (js_add (rounded rd (js_add (Fin 0) (xs ! (2 * i)))) (xs ! Suc (2 * i))),
             2)"
      by (rule downsample_inner_two [OF idx next_acc])
    then show ?thesis
      using lt by (subst downsample_outer.simps) (simp add: v_def)
  qed
  have "d = n - Suc i" using Suc.hyps(2) by simp
  from Suc.hyps(1) [OF this Suc.prems(1)] Suc.prems(2) lt
  have "downsample_outer rd rf xs (Fin 2) n (Suc i) (2 * Suc i) (2 * Suc i) (out[i := v])
        = take (Suc i) (out[i := v])
          @ map (\<lambda>k. rounded_mean rd rf (take 2 (drop (2 * k) xs))) [Suc i..<n]"
    by simp
  moreover have "take (Suc i) (out[i := v]) = take i out @ [v]"
    using lt Suc.prems(2) by (simp add: take_Suc_conv_app_nth)
  moreover have "[i..<n] = i # [Suc i..<n]"
    using lt by (simp add: upt_conv_Cons)
  moreover have "rounded_mean rd rf (take 2 (drop (2 * i) xs)) = v"
    unfolding v_def by (rule rounded_mean_pair [OF idx])
  ultimately show ?case using step by simp
qed

lemma downsampleTo24kHz_48000:
  assumes exact: "\<And>k. k \<le> 2 * length xs + 4 \<Longrightarrow> rd (real k / 2) = Fin (real k / 2)"
  shows "downsampleTo24kHz rd rf xs (Fin 48000) = Inr (decimate2_spec rd rf xs)"
proof -
  have two: "rd 2 = Fin 2"
    using exact [of 4] by simp
  have half: "rd (real (length xs) / 2) = Fin (real (length xs) / 2)"
    using exact [of "length xs"] by simp
  have fl: "\<lfloor>real (length xs) / 2\<rfloor> = int (length xs div 2)"
  proof -
    have "\<lfloor>real (length xs) / real (2::nat)\<rfloor> = int (length xs div 2)"
      by (rule floor_divide_of_nat_eq)
    then show ?thesis by simp
  qed
  have ex: "rd (real (j + 1) * 2) = Fin (real (2 * j + 2))" if "j < length xs div 2" for j
  proof -
    have eq: "real (4 * (j + 1)) / 2 = real (j + 1) * 2"
      by simp
    have r: "real (2 * j + 2) = real (j + 1) * 2"
      by simp
    have "rd (real (4 * (j + 1)) / 2) = Fin (real (4 * (j + 1)) / 2)"
      using that by (intro exact) simp
    then have "rd (real (j + 1) * 2) = Fin (real (j + 1) * 2)"
      unfolding eq .
    then show ?thesis
      unfolding r .
  qed
  have "downsample_outer rd rf xs (Fin 2) (length xs div 2) 0 (2 * 0) (2 * 0)
          (replicate (length xs div 2) (Fin 0))
        = take 0 (replicate (length xs div 2) (Fin 0))
          @ map (\<lambda>k. rounded_mean rd rf (take 2 (drop (2 * k) xs))) [0..<length xs div 2]"
  proof (rule downsample_outer_two)
    show "2 * (length xs div 2) \<le> length xs" by simp
    show "length (replicate (length xs div 2) (Fin 0)) = length xs div 2" by simp
    show "0 \<le> length xs div 2" by simp
    show "rd (real (j + 1) * 2) = Fin (real (2 * j + 2))" if "j < length xs div 2" for j
      by (rule ex [OF that])
  qed
  then show ?thesis
    by (simp add: downsampleTo24kHz_def Let_def rounded_def two half fl decimate2_spec_def)
qed

text \<open>
  C7, as the claim states it, at the samples \<open>1\<close> and \<open>2\<^sup>-\<^sup>2\<^sup>4\<close> and the rate 48000:
  the average is \<open>1/2 + 2\<^sup>-\<^sup>2\<^sup>5\<close>, which is no single; the nearest single, which the
  \<open>Float32Array\<close> holds, is \<open>1/2\<close>. Here every operation on doubles is exact, and the
  store rounds the one value it is given as the nearest single does.
\<close>

theorem downsample_store_rounds_counterexample:
  "downsampleTo24kHz Fin (\<lambda>x. if x = 1 / 2 + 1 / 2 ^ 25 then Fin (1 / 2) else Fin x)
     [Fin 1, Fin (1 / 2 ^ 24)] (Fin 48000) = Inr [Fin (1 / 2)]
   \<and> block_mean [Fin 1, Fin (1 / 2 ^ 24)] = Fin (1 / 2 + 1 / 2 ^ 25)
   \<and> Fin (1 / 2) \<noteq> Fin (1 / 2 + 1 / 2 ^ 25)"
proof -
  have "downsampleTo24kHz Fin (\<lambda>x. if x = 1 / 2 + 1 / 2 ^ 25 then Fin (1 / 2) else Fin x)
          [Fin 1, Fin (1 / 2 ^ 24)] (Fin 48000)
        = Inr (decimate2_spec Fin (\<lambda>x. if x = 1 / 2 + 1 / 2 ^ 25 then Fin (1 / 2) else Fin x)
            [Fin 1, Fin (1 / 2 ^ 24)])"
    by (rule downsampleTo24kHz_48000) simp
  moreover have "decimate2_spec Fin (\<lambda>x. if x = 1 / 2 + 1 / 2 ^ 25 then Fin (1 / 2) else Fin x)
            [Fin 1, Fin (1 / 2 ^ 24)] = [Fin (1 / 2)]"
    by (simp add: decimate2_spec_def rounded_mean_def rounded_def)
  moreover have "block_mean [Fin 1, Fin (1 / 2 ^ 24)] = Fin (1 / 2 + 1 / 2 ^ 25)"
    by (simp add: block_mean_def)
  ultimately show ?thesis by simp
qed

text \<open>
  C7, amended. \<open>downsampleTo24kHz\<close> is the identity at 24000 Hz. At 48000 Hz, when
  double arithmetic is exact on the halves of the integers up to twice the input length
  plus four (as it is below \<open>2\<^sup>5\<^sup>3\<close>), the output has \<open>length div 2\<close> samples and each
  is the average of the two source samples of its span as double arithmetic computes it,
  rounded to a single by the store; where no rounding occurs it is the exact average. A
  48000-sample unit impulse gives 24000 samples.
\<close>

theorem downsampleTo24kHz_rates:
  "downsampleTo24kHz rd rf xs (Fin 24000) = Inr xs
   \<and> ((\<forall>k \<le> 2 * length xs + 4. rd (real k / 2) = Fin (real k / 2)) \<longrightarrow>
        downsampleTo24kHz rd rf xs (Fin 48000) = Inr (decimate2_spec rd rf xs)
        \<and> length (decimate2_spec rd rf xs) = length xs div 2)
   \<and> decimate2_spec Fin Fin [Fin a, Fin b, Fin c, Fin d] = [Fin ((a + b) / 2), Fin ((c + d) / 2)]
   \<and> ((\<forall>k \<le> 96004. rd (real k / 2) = Fin (real k / 2)) \<longrightarrow>
        map_sum id length (downsampleTo24kHz rd rf (Fin 1 # replicate 47999 (Fin 0)) (Fin 48000))
        = Inr 24000)"
proof -
  have "decimate2_spec Fin Fin [Fin a, Fin b, Fin c, Fin d]
        = [Fin ((a + b) / 2), Fin ((c + d) / 2)]"
    by (simp add: decimate2_spec_def rounded_mean_def rounded_def upt_conv_Cons)
  moreover have len: "length (decimate2_spec rd rf ys) = length ys div 2" for ys
    by (simp add: decimate2_spec_def)
  moreover have "downsampleTo24kHz rd rf xs (Fin 48000) = Inr (decimate2_spec rd rf xs)"
    if "\<forall>k \<le> 2 * length xs + 4. rd (real k / 2) = Fin (real k / 2)"
    by (rule downsampleTo24kHz_48000) (simp add: that)
  moreover have "map_sum id length
          (downsampleTo24kHz rd rf (Fin 1 # replicate 47999 (Fin 0)) (Fin 48000)) = Inr 24000"
    if "\<forall>k \<le> 96004. rd (real k / 2) = Fin (real k / 2)"
  proof -
    have "downsampleTo24kHz rd rf (Fin 1 # replicate 47999 (Fin 0)) (Fin 48000)
          = Inr (decimate2_spec rd rf (Fin 1 # replicate 47999 (Fin 0)))"
      by (rule downsampleTo24kHz_48000) (simp add: that)
    then show ?thesis by (simp add: len)
  qed
  moreover have "downsampleTo24kHz rd rf xs (Fin 24000) = Inr xs"
    by (simp add: downsampleTo24kHz_def)
  ultimately show ?thesis by blast
qed

theorem downsampleTo24kHz_rates_witness:
  "downsampleTo24kHz Fin (\<lambda>x. if x = 1 / 2 + 1 / 2 ^ 25 then Fin (1 / 2) else Fin x)
     [Fin 1, Fin (1 / 2 ^ 24), Fin 3, Fin 5, Fin 7] (Fin 48000)
   = Inr [Fin (1 / 2), Fin 4]
   \<and> map_sum id length
       (downsampleTo24kHz Fin Fin (Fin 1 # replicate 47999 (Fin 0)) (Fin 48000)) = Inr 24000"
proof -
  have "decimate2_spec Fin (\<lambda>x. if x = 1 / 2 + 1 / 2 ^ 25 then Fin (1 / 2) else Fin x)
          [Fin 1, Fin (1 / 2 ^ 24), Fin 3, Fin 5, Fin 7] = [Fin (1 / 2), Fin 4]"
    by (simp add: decimate2_spec_def rounded_mean_def rounded_def upt_conv_Cons)
  then show ?thesis
    using downsampleTo24kHz_rates
      [where rd = Fin and rf = "\<lambda>x. if x = 1 / 2 + 1 / 2 ^ 25 then Fin (1 / 2) else Fin x"
        and xs = "[Fin 1, Fin (1 / 2 ^ 24), Fin 3, Fin 5, Fin 7]"]
      downsampleTo24kHz_rates [where rd = Fin and rf = Fin]
    by simp
qed

section \<open>Properties of the frame accumulator\<close>

text \<open>
  C3. The claim: when the pending buffer reaches 2400 samples, the emitted frame encodes
  every sample accumulated since the last emission. The handler run on two chunks of 1200
  samples at 24000 Hz: the first chunk (samples 0.5, PCM value 16383) is kept pending; on
  the second chunk (samples 1) the pending buffer holds 2400 samples, the emitted frame
  holds the 1200 samples of the second chunk alone, and the pending buffer is cleared, so
  the first chunk is never encoded.
\<close>

theorem port_onmessage_encodes_newest_chunk_only:
  "port_onmessage rd rf \<lparr>pendingSamples = None, sampleRate = Fin 24000\<rparr> (replicate 1200 (Fin 0.5))
     = Inr (\<lparr>pendingSamples = Some (replicate 1200 (Fin 0.5)), sampleRate = Fin 24000\<rparr>, None)
   \<and> port_onmessage rd rf \<lparr>pendingSamples = Some (replicate 1200 (Fin 0.5)), sampleRate = Fin 24000\<rparr>
         (replicate 1200 (Fin 1))
     = Inr (\<lparr>pendingSamples = None, sampleRate = Fin 24000\<rparr>, Some (replicate 1200 32767))
   \<and> floatToPCM16 (replicate 1200 (Fin 0.5) @ replicate 1200 (Fin 1))
     = replicate 1200 16383 @ replicate 1200 32767"
proof -
  have "quantise_spec (Fin 1) = 32767" "quantise_spec (Fin 0.5) = 16383"
    by (simp_all add: quantise_spec_def clamp_unit_def js_trunc_def)
  then have one: "pcm16_sample (Fin 1) = 32767" and half: "pcm16_sample (Fin 0.5) = 16383"
    by (simp_all only: pcm16_sample_spec)
  from half have half': "pcm16_sample (Fin (1 / 2)) = 16383"
    by simp
  have ds: "downsampleTo24kHz rd rf xs (Fin 24000) = Inr xs" for xs
    by (simp add: downsampleTo24kHz_def)
  show ?thesis
    by (simp add: port_onmessage_def ds THRESHOLD_SAMPLES_24K_def floatToPCM16_map one half')
qed

section \<open>Properties of the relay's client handler\<close>

lemma get_prop_Some_obj: "get_prop m k = Some v \<Longrightarrow> \<exists>kvs. m = JObj kvs \<and> map_of kvs k = Some v"
  by (cases m) simp_all

text \<open>
  C1, as the claim states it, at a flush that arrives while the upstream socket is still
  connecting, with the estimate at the threshold and the flag false: the claim has one
  commit and one request-create sent, the flag set and the estimate reset; the send of
  the commit throws into the handler's \<open>catch\<close>, nothing is sent, the flag stays false
  and the estimate stays 6400.
\<close>

theorem client_flush_connecting_counterexample:
  "client_on_message (\<lambda>raw. Some (JObj [(''type'', JStr ''client.flush'')])) ''f''
     (\<lparr>approxB64SinceCommit = 6400, activeResponse = False\<rparr>, new_connection)
   = (\<lparr>approxB64SinceCommit = 6400, activeResponse = False\<rparr>, new_connection)
   \<and> to_openai new_connection \<noteq> to_openai new_connection @ [BufferCommit, ResponseCreate]"
  by (simp add: client_on_message_def openai_send_def new_connection_def MIN_B64_FOR_100MS_def)

text \<open>
  C1, amended. A flush with the estimate below 6400 sends nothing upstream and changes
  nothing. While the upstream socket is open, a flush with the estimate at or above 6400
  and the flag false sends one commit and one request-create, sets the flag and resets
  the estimate to zero; with the flag true it sends one commit only and leaves flag and
  estimate as they are. While the upstream socket is still connecting, a flush sends
  nothing and changes neither the flag nor the estimate. Nothing goes to the client.
\<close>

theorem client_flush_gate:
  assumes "parse raw = Some msg" and "get_prop msg ''type'' = Some (JStr ''client.flush'')"
  shows "case client_on_message parse raw (g, cn) of (g', cn') \<Rightarrow>
           language cn' = language cn \<and> to_client cn' = to_client cn
           \<and> sockets_closed cn' = sockets_closed cn \<and> openai_state cn' = openai_state cn
           \<and> (approxB64SinceCommit g < 6400 \<longrightarrow> g' = g \<and> to_openai cn' = to_openai cn)
           \<and> (openai_state cn = OPEN \<and> 6400 \<le> approxB64SinceCommit g \<and> \<not> activeResponse g \<longrightarrow>
                to_openai cn' = to_openai cn @ [BufferCommit, ResponseCreate]
                \<and> activeResponse g' \<and> approxB64SinceCommit g' = 0)
           \<and> (openai_state cn = OPEN \<and> 6400 \<le> approxB64SinceCommit g \<and> activeResponse g \<longrightarrow>
                to_openai cn' = to_openai cn @ [BufferCommit]
                \<and> activeResponse g' \<and> approxB64SinceCommit g' = approxB64SinceCommit g)
           \<and> (openai_state cn = CONNECTING \<longrightarrow> g' = g \<and> to_openai cn' = to_openai cn)"
proof -
  from get_prop_Some_obj [OF assms(2)] obtain kvs
    where m: "msg = JObj kvs" and ty: "map_of kvs ''type'' = Some (JStr ''client.flush'')"
    by blast
  show ?thesis
  proof (cases "openai_state cn")
    case CONNECTING
    then show ?thesis
      using assms(1) ty
      by (simp add: client_on_message_def m MIN_B64_FOR_100MS_def openai_send_def)
  next
    case OPEN
    then show ?thesis
      using assms(1) ty
      by (simp add: client_on_message_def m MIN_B64_FOR_100MS_def openai_send_def Let_def)
  next
    case CLOSED
    then show ?thesis
      using assms(1) ty
      by (simp add: client_on_message_def m MIN_B64_FOR_100MS_def openai_send_def Let_def)
  qed
qed

theorem client_flush_gate_witness:
  "client_on_message (\<lambda>raw. Some (JObj [(''type'', JStr ''client.flush'')])) ''f''
     (\<lparr>approxB64SinceCommit = 6399, activeResponse = False\<rparr>,
      new_connection\<lparr>openai_state := OPEN\<rparr>)
   = (\<lparr>approxB64SinceCommit = 6399, activeResponse = False\<rparr>,
      new_connection\<lparr>openai_state := OPEN\<rparr>)
   \<and> client_on_message (\<lambda>raw. Some (JObj [(''type'', JStr ''client.flush'')])) ''f''
     (\<lparr>approxB64SinceCommit = 6400, activeResponse = False\<rparr>,
      new_connection\<lparr>openai_state := OPEN\<rparr>)
   = (\<lparr>approxB64SinceCommit = 0, activeResponse = True\<rparr>,
      new_connection\<lparr>openai_state := OPEN, to_openai := [BufferCommit, ResponseCreate]\<rparr>)
   \<and> client_on_message (\<lambda>raw. Some (JObj [(''type'', JStr ''client.flush'')])) ''f''
     (\<lparr>approxB64SinceCommit = 6400, activeResponse = True\<rparr>,
      new_connection\<lparr>openai_state := OPEN\<rparr>)
   = (\<lparr>approxB64SinceCommit = 6400, activeResponse = True\<rparr>,
      new_connection\<lparr>openai_state := OPEN, to_openai := [BufferCommit]\<rparr>)
   \<and> client_on_message (\<lambda>raw. Some (JObj [(''type'', JStr ''client.flush'')])) ''f''
     (\<lparr>approxB64SinceCommit = 7000, activeResponse = True\<rparr>, new_connection)
   = (\<lparr>approxB64SinceCommit = 7000, activeResponse = True\<rparr>, new_connection)"
  using
    client_flush_gate [where parse = "\<lambda>raw. Some (JObj [(''type'', JStr ''client.flush'')])"
      and raw = "''f''" and msg = "JObj [(''type'', JStr ''client.flush'')]"
      and g = "\<lparr>approxB64SinceCommit = 6399, activeResponse = False\<rparr>"
      and cn = "new_connection\<lparr>openai_state := OPEN\<rparr>"]
    client_flush_gate [where parse = "\<lambda>raw. Some (JObj [(''type'', JStr ''client.flush'')])"
      and raw = "''f''" and msg = "JObj [(''type'', JStr ''client.flush'')]"
      and g = "\<lparr>approxB64SinceCommit = 6400, activeResponse = False\<rparr>"
      and cn = "new_connection\<lparr>openai_state := OPEN\<rparr>"]
    client_flush_gate [where parse = "\<lambda>raw. Some (JObj [(''type'', JStr ''client.flush'')])"
      and raw = "''f''" and msg = "JObj [(''type'', JStr ''client.flush'')]"
      and g = "\<lparr>approxB64SinceCommit = 6400, activeResponse = True\<rparr>"
      and cn = "new_connection\<lparr>openai_state := OPEN\<rparr>"]
    client_flush_gate [where parse = "\<lambda>raw. Some (JObj [(''type'', JStr ''client.flush'')])"
      and raw = "''f''" and msg = "JObj [(''type'', JStr ''client.flush'')]"
      and g = "\<lparr>approxB64SinceCommit = 7000, activeResponse = True\<rparr>"
      and cn = new_connection]
  by (auto simp: new_connection_def split: prod.splits)

text \<open>
  C10, as the claim states it, at a \<open>config\<close> message that arrives while the upstream
  socket is still connecting: the claim has one session update pushed upstream; the send
  throws into the \<open>catch\<close> around it, the language is set and nothing is sent.
\<close>

theorem client_config_connecting_counterexample:
  "client_on_message
     (\<lambda>raw. Some (JObj [(''type'', JStr ''config''), (''language'', JStr ''ko'')])) ''c''
     (\<lparr>approxB64SinceCommit = 0, activeResponse = False\<rparr>, new_connection)
   = (\<lparr>approxB64SinceCommit = 0, activeResponse = False\<rparr>,
      new_connection\<lparr>language := JStr ''ko''\<rparr>)
   \<and> to_openai (new_connection\<lparr>language := JStr ''ko''\<rparr>)
       \<noteq> to_openai new_connection @ [SessionUpdate (JStr ''ko'')]"
  by (simp add: client_on_message_def openai_send_def new_connection_def)

text \<open>
  C10, amended. A \<open>config\<close> message with a language sets the connection's language; it
  sends one session update upstream when the upstream socket is open and none otherwise;
  the estimate, the flag and the messages to the client are as before. When the message
  came while the upstream socket was connecting, the session update sent at the socket's
  \<open>open\<close> event carries the language.
\<close>

theorem client_config_frame:
  assumes "parse raw = Some msg" and "get_prop msg ''type'' = Some (JStr ''config'')"
    and "get_prop msg ''language'' = Some l" and "truthy l"
  shows "client_on_message parse raw (g, cn)
         = (g, cn\<lparr>language := l,
                   to_openai := (if openai_state cn = OPEN then to_openai cn @ [SessionUpdate l]
                                 else to_openai cn)\<rparr>)
         \<and> (openai_state cn = CONNECTING \<longrightarrow>
              to_openai (openai_on_open (snd (client_on_message parse raw (g, cn))))
              = to_openai cn @ [SessionUpdate l])"
proof -
  from get_prop_Some_obj [OF assms(2)] obtain kvs
    where m: "msg = JObj kvs" and ty: "map_of kvs ''type'' = Some (JStr ''config'')"
    by blast
  from assms(3) m have l: "map_of kvs ''language'' = Some l" by simp
  show ?thesis
    using assms(1,4) ty l
    by (cases "openai_state cn")
       (simp_all add: client_on_message_def m openai_send_def openai_on_open_def Let_def)
qed

theorem client_config_frame_witness:
  "client_on_message
     (\<lambda>raw. Some (JObj [(''type'', JStr ''config''), (''language'', JStr ''ko'')])) ''c''
     (\<lparr>approxB64SinceCommit = 7000, activeResponse = True\<rparr>,
      new_connection\<lparr>openai_state := OPEN\<rparr>)
   = (\<lparr>approxB64SinceCommit = 7000, activeResponse = True\<rparr>,
      new_connection\<lparr>language := JStr ''ko'', openai_state := OPEN,
                      to_openai := [SessionUpdate (JStr ''ko'')]\<rparr>)
   \<and> to_openai (openai_on_open (snd (client_on_message
        (\<lambda>raw. Some (JObj [(''type'', JStr ''config''), (''language'', JStr ''ko'')])) ''c''
        (\<lparr>approxB64SinceCommit = 7000, activeResponse = True\<rparr>, new_connection))))
     = [SessionUpdate (JStr ''ko'')]"
  using
    client_config_frame
      [where parse = "\<lambda>raw. Some (JObj [(''type'', JStr ''config''), (''language'', JStr ''ko'')])"
        and raw = "''c''" and msg = "JObj [(''type'', JStr ''config''), (''language'', JStr ''ko'')]"
        and l = "JStr ''ko''"
        and g = "\<lparr>approxB64SinceCommit = 7000, activeResponse = True\<rparr>"
        and cn = "new_connection\<lparr>openai_state := OPEN\<rparr>"]
    client_config_frame
      [where parse = "\<lambda>raw. Some (JObj [(''type'', JStr ''config''), (''language'', JStr ''ko'')])"
        and raw = "''c''" and msg = "JObj [(''type'', JStr ''config''), (''language'', JStr ''ko'')]"
        and l = "JStr ''ko''"
        and g = "\<lparr>approxB64SinceCommit = 7000, activeResponse = True\<rparr>"
        and cn = new_connection]
  by (auto simp: new_connection_def)

lemma client_on_message_append:
  assumes "parse raw = Some (JObj [(''type'', JStr ''client.audio.append''), (''audio'', JStr a)])"
    and "openai_state cn = OPEN"
  shows "client_on_message parse raw (g, cn)
         = (g\<lparr>approxB64SinceCommit := approxB64SinceCommit g + length a\<rparr>,
            cn\<lparr>to_openai := to_openai cn @ [AudioAppend a]\<rparr>)"
  using assms by (simp add: client_on_message_def openai_send_def)

lemma client_on_message_flush:
  assumes "parse raw = Some (JObj [(''type'', JStr ''client.flush'')])"
    and "6400 \<le> approxB64SinceCommit g" and "\<not> activeResponse g"
    and "openai_state cn = OPEN"
  shows "client_on_message parse raw (g, cn)
         = (g\<lparr>activeResponse := True, approxB64SinceCommit := 0\<rparr>,
            cn\<lparr>to_openai := to_openai cn @ [BufferCommit, ResponseCreate]\<rparr>)"
  using assms by (simp add: client_on_message_def openai_send_def MIN_B64_FOR_100MS_def)

text \<open>
  C2. The claim: the estimate and the flag belong to one connection. Both are module
  variables, and every connection's handlers read and write the same pair. Two
  connections are accepted and their upstream sockets open (each sends its session
  update). Connection 1 appends 6400 characters of audio and connection 2, which got no
  audio, flushes: the relay commits and requests a response on connection 2's upstream
  socket, and the estimate that connection 1 built up is reset. In the second run
  connection 1 is closed before connection 2 is accepted, and the flush of connection 2
  still finds the estimate left behind.
\<close>

theorem module_state_shared_between_connections:
  "(let parse = (\<lambda>raw. if raw = ''append''
                   then Some (JObj [(''type'', JStr ''client.audio.append''),
                                    (''audio'', JStr (replicate 6400 CHR ''A''))])
                   else Some (JObj [(''type'', JStr ''client.flush'')]));
        srv = on_client_message parse 2 ''flush''
                (on_client_message parse 1 ''append''
                  (on_openai_open 2 (on_connection 2
                    (on_openai_open 1 (on_connection 1 server_start)))))
    in map_option to_openai (conns srv 2)
         = Some [SessionUpdate (JStr ''en''), BufferCommit, ResponseCreate]
       \<and> map_option to_openai (conns srv 1)
         = Some [SessionUpdate (JStr ''en''), AudioAppend (replicate 6400 CHR ''A'')]
       \<and> globals srv = \<lparr>approxB64SinceCommit = 0, activeResponse = True\<rparr>)
   \<and> (let parse = (\<lambda>raw. if raw = ''append''
                   then Some (JObj [(''type'', JStr ''client.audio.append''),
                                    (''audio'', JStr (replicate 6400 CHR ''A''))])
                   else Some (JObj [(''type'', JStr ''client.flush'')]));
        srv = on_client_message parse 2 ''flush''
                (on_openai_open 2 (on_connection 2
                  (on_close 1
                    (on_client_message parse 1 ''append''
                      (on_openai_open 1 (on_connection 1 server_start))))))
    in map_option to_openai (conns srv 2)
         = Some [SessionUpdate (JStr ''en''), BufferCommit, ResponseCreate]
       \<and> globals srv = \<lparr>approxB64SinceCommit = 0, activeResponse = True\<rparr>)"
proof -
  define a where "a = replicate 6400 CHR ''A''"
  define parse where "parse = (\<lambda>raw. if raw = ''append''
                   then Some (JObj [(''type'', JStr ''client.audio.append''), (''audio'', JStr a)])
                   else Some (JObj [(''type'', JStr ''client.flush'')]))"
  define g0 where "g0 = \<lparr>approxB64SinceCommit = 0, activeResponse = False\<rparr>"
  define g1 where "g1 = \<lparr>approxB64SinceCommit = 6400, activeResponse = False\<rparr>"
  define g2 where "g2 = \<lparr>approxB64SinceCommit = 0, activeResponse = True\<rparr>"
  define c0 where "c0 = new_connection\<lparr>openai_state := OPEN,
                                        to_openai := [SessionUpdate (JStr ''en'')]\<rparr>"
  have len: "length a = 6400" by (simp add: a_def)
  have pa: "parse ''append''
            = Some (JObj [(''type'', JStr ''client.audio.append''), (''audio'', JStr a)])"
    and pf: "parse ''flush'' = Some (JObj [(''type'', JStr ''client.flush'')])"
    by (simp_all add: parse_def)
  have opened: "openai_on_open new_connection = c0"
    by (simp add: openai_on_open_def openai_send_def new_connection_def c0_def)
  have nc: "sockets_closed new_connection = False"
    by (simp add: new_connection_def)
  have c0: "openai_state c0 = OPEN" "\<not> sockets_closed c0"
    "to_openai c0 = [SessionUpdate (JStr ''en'')]"
    by (simp_all add: c0_def new_connection_def)
  have app: "client_on_message parse ''append'' (g0, c0)
             = (g1, c0\<lparr>to_openai := [SessionUpdate (JStr ''en''), AudioAppend a]\<rparr>)"
    using c0
    by (simp add: client_on_message_append [where parse = parse and raw = "''append''", OF pa]
        len g0_def g1_def)
  have fl: "client_on_message parse ''flush'' (g1, c0)
            = (g2, c0\<lparr>to_openai := [SessionUpdate (JStr ''en''), BufferCommit, ResponseCreate]\<rparr>)"
    using c0
    by (simp add: client_on_message_flush [where parse = parse and raw = "''flush''", OF pf]
        g1_def g2_def)
  define srv where "srv = on_client_message parse 2 ''flush''
                (on_client_message parse 1 ''append''
                  (on_openai_open 2 (on_connection 2
                    (on_openai_open 1 (on_connection 1 server_start)))))"
  define srv' where "srv' = on_client_message parse 2 ''flush''
                (on_openai_open 2 (on_connection 2
                  (on_close 1
                    (on_client_message parse 1 ''append''
                      (on_openai_open 1 (on_connection 1 server_start))))))"
  have o1: "on_openai_open 1 (on_connection 1 server_start)
            = \<lparr>globals = g0, conns = (\<lambda>c. None)(1 \<mapsto> c0)\<rparr>"
    by (simp add: on_openai_open_def on_connection_def server_start_def g0_def opened nc)
  have o2: "on_openai_open 2 (on_connection 2 \<lparr>globals = g0, conns = (\<lambda>c. None)(1 \<mapsto> c0)\<rparr>)
            = \<lparr>globals = g0, conns = (\<lambda>c. None)(1 \<mapsto> c0, 2 \<mapsto> c0)\<rparr>"
    by (simp add: on_openai_open_def on_connection_def opened nc)
  have s1: "on_client_message parse 1 ''append''
              \<lparr>globals = g0, conns = (\<lambda>c. None)(1 \<mapsto> c0, 2 \<mapsto> c0)\<rparr>
            = \<lparr>globals = g1,
               conns = (\<lambda>c. None)
                 (1 \<mapsto> c0\<lparr>to_openai := [SessionUpdate (JStr ''en''), AudioAppend a]\<rparr>,
                  2 \<mapsto> c0)\<rparr>"
    using c0 by (simp add: on_client_message_def app fun_upd_twist)
  have s2: "srv = \<lparr>globals = g2,
               conns = (\<lambda>c. None)
                 (1 \<mapsto> c0\<lparr>to_openai := [SessionUpdate (JStr ''en''), AudioAppend a]\<rparr>,
                  2 \<mapsto> c0\<lparr>to_openai := [SessionUpdate (JStr ''en''), BufferCommit,
                                          ResponseCreate]\<rparr>)\<rparr>"
    unfolding srv_def o1 o2 s1 using c0
    by (simp add: on_client_message_def fl)
  have t1: "on_client_message parse 1 ''append'' \<lparr>globals = g0, conns = (\<lambda>c. None)(1 \<mapsto> c0)\<rparr>
            = \<lparr>globals = g1,
               conns = (\<lambda>c. None)
                 (1 \<mapsto> c0\<lparr>to_openai := [SessionUpdate (JStr ''en''), AudioAppend a]\<rparr>)\<rparr>"
    using c0 by (simp add: on_client_message_def app)
  have t2: "on_openai_open 2 (on_connection 2 (on_close 1
               \<lparr>globals = g1,
                conns = (\<lambda>c. None)
                  (1 \<mapsto> c0\<lparr>to_openai := [SessionUpdate (JStr ''en''), AudioAppend a]\<rparr>)\<rparr>))
            = \<lparr>globals = g1,
               conns = (\<lambda>c. None)
                 (1 \<mapsto> closeAll (c0\<lparr>to_openai := [SessionUpdate (JStr ''en''), AudioAppend a]\<rparr>),
                  2 \<mapsto> c0)\<rparr>"
    by (simp add: on_openai_open_def on_connection_def on_close_def opened nc)
  have t3: "srv' = \<lparr>globals = g2,
               conns = (\<lambda>c. None)
                 (1 \<mapsto> closeAll (c0\<lparr>to_openai := [SessionUpdate (JStr ''en''), AudioAppend a]\<rparr>),
                  2 \<mapsto> c0\<lparr>to_openai := [SessionUpdate (JStr ''en''), BufferCommit,
                                          ResponseCreate]\<rparr>)\<rparr>"
    unfolding srv'_def o1 t1 t2 using c0
    by (simp add: on_client_message_def fl)
  have "map_option to_openai (conns srv 2)
          = Some [SessionUpdate (JStr ''en''), BufferCommit, ResponseCreate]
       \<and> map_option to_openai (conns srv 1) = Some [SessionUpdate (JStr ''en''), AudioAppend a]
       \<and> globals srv = g2"
    by (simp add: s2)
  moreover have "map_option to_openai (conns srv' 2)
          = Some [SessionUpdate (JStr ''en''), BufferCommit, ResponseCreate]
       \<and> globals srv' = g2"
    by (simp add: t3)
  ultimately show ?thesis
    unfolding Let_def srv_def srv'_def parse_def a_def g2_def by blast
qed

section \<open>Properties of the provider event normalizer\<close>

lemma client_send_frame [simp]:
  "sockets_closed (client_send x cn) = sockets_closed cn"
  "to_openai (client_send x cn) = to_openai cn"
  "language (client_send x cn) = language cn"
  "openai_state (client_send x cn) = openai_state cn"
  by (simp_all add: client_send_def)

lemma send_interim_frame [simp]:
  "sockets_closed (send_interim t cn) = sockets_closed cn"
  "to_openai (send_interim t cn) = to_openai cn"
  "language (send_interim t cn) = language cn"
  "openai_state (send_interim t cn) = openai_state cn"
  by (simp_all add: send_interim_def)

lemma send_final_frame [simp]:
  "sockets_closed (send_final t cn) = sockets_closed cn"
  "to_openai (send_final t cn) = to_openai cn"
  "language (send_final t cn) = language cn"
  "openai_state (send_final t cn) = openai_state cn"
  by (simp_all add: send_final_def)

lemma interim_of_frame:
  assumes "interim_of v cn = Some cn'"
  shows "sockets_closed cn' = sockets_closed cn \<and> to_openai cn' = to_openai cn
         \<and> language cn' = language cn \<and> openai_state cn' = openai_state cn"
  using assms by (auto simp: interim_of_def)

lemma final_of_frame:
  assumes "final_of v cn = Some cn'"
  shows "sockets_closed cn' = sockets_closed cn \<and> to_openai cn' = to_openai cn
         \<and> language cn' = language cn \<and> openai_state cn' = openai_state cn"
  using assms by (auto simp: final_of_def)

lemma provider_event_frame:
  assumes "provider_event m (g, cn) = (f, g', cn')"
  shows "sockets_closed cn' = sockets_closed cn \<and> to_openai cn' = to_openai cn
         \<and> language cn' = language cn \<and> openai_state cn' = openai_state cn"
  using assms
  by (auto simp: provider_event_def Let_def
           split: if_splits option.splits json.splits
           dest!: interim_of_frame final_of_frame)

lemma openai_lines_frame:
  "sockets_closed (snd (openai_lines parse ls st)) = sockets_closed (snd st)
   \<and> to_openai (snd (openai_lines parse ls st)) = to_openai (snd st)
   \<and> language (snd (openai_lines parse ls st)) = language (snd st)
   \<and> openai_state (snd (openai_lines parse ls st)) = openai_state (snd st)"
proof (induction ls arbitrary: st)
  case Nil
  show ?case by simp
next
  case (Cons l ls)
  show ?case
  proof (cases "parse l")
    case None
    then show ?thesis by simp
  next
    case (Some m)
    obtain f g' cn' where ev: "provider_event m (fst st, snd st) = (f, g', cn')"
      using prod_cases3 by blast
    from provider_event_frame [OF ev] Cons.IH [of "(g', cn')"] Some ev
    show ?thesis by (cases f) simp_all
  qed
qed

text \<open>
  A line that ends the loop without changing the state cuts the batch: the handler does
  what it does on the lines before it.
\<close>

lemma openai_lines_cut:
  assumes "parse l = None
           \<or> (\<exists>m. parse l = Some m
                \<and> (\<forall>st. fst (provider_event m st) \<noteq> Next \<and> snd (provider_event m st) = st))"
  shows "openai_lines parse (pre @ l # post) st = openai_lines parse pre st"
proof (induction pre arbitrary: st)
  case Nil
  from assms show ?case
  proof
    assume "parse l = None"
    then show ?thesis by simp
  next
    assume "\<exists>m. parse l = Some m
                \<and> (\<forall>st. fst (provider_event m st) \<noteq> Next \<and> snd (provider_event m st) = st)"
    then obtain m where m: "parse l = Some m"
      and stop: "fst (provider_event m st) \<noteq> Next" "snd (provider_event m st) = st"
      by blast
    then show ?thesis
      by (cases "provider_event m st"; cases "fst (provider_event m st)") auto
  qed
next
  case (Cons p pre)
  show ?case
  proof (cases "parse p")
    case None
    then show ?thesis by simp
  next
    case (Some m)
    then show ?thesis
      using Cons.IH by (cases "provider_event m st"; cases "fst (provider_event m st)") auto
  qed
qed

text \<open>
  When every line of a prefix parses and the body falls through on each of its events,
  the loop has processed each of them in turn when it comes to the rest.
\<close>

lemma openai_lines_through:
  assumes "map parse pre = map Some ms" and "all_continue ms st"
  shows "openai_lines parse (pre @ rest) st = openai_lines parse rest (foldl body_step st ms)"
  using assms
proof (induction pre arbitrary: ms st)
  case Nil
  then show ?case by simp
next
  case (Cons p pre)
  from Cons.prems(1) obtain m ms' where ms: "ms = m # ms'" and p: "parse p = Some m"
    and rest: "map parse pre = map Some ms'"
    by (cases ms) auto
  from Cons.prems(2) ms have nxt: "fst (provider_event m st) = Next"
    and cont: "all_continue ms' (body_step st m)"
    by simp_all
  from nxt have ev: "provider_event m st = (Next, body_step st m)"
    by (simp add: body_step_def prod_eq_iff)
  show ?case
    using Cons.IH [OF rest cont] by (simp add: p ev ms)
qed

text \<open>
  C5, as the claim states it, at a message of three lines: a \<open>content_part.done\<close> event
  with text \<open>a\<close>, a text delta \<open>b\<close>, and a line that does not parse. The claim has
  every line before the failing one processed normally; the handler returns after the
  first line, and the delta, which the loop body would forward, has no effect.
\<close>

theorem parse_failure_earlier_return_counterexample:
  "nonblank_lines [CHR ''P'', CHR 0x0A, CHR ''D'', CHR 0x0A, CHR ''#''] = [''P'', ''D'', ''#'']
   \<and> openai_on_message
       (\<lambda>l. if l = ''P''
            then Some (JObj [(''type'', JStr ''response.content_part.done''),
                             (''part'', JObj [(''text'', JStr ''a'')])])
            else if l = ''D''
            then Some (JObj [(''type'', JStr ''response.text.delta''), (''delta'', JStr ''b'')])
            else None)
       [CHR ''P'', CHR 0x0A, CHR ''D'', CHR 0x0A, CHR ''#'']
       (\<lparr>approxB64SinceCommit = 0, activeResponse = True\<rparr>, new_connection)
     = (\<lparr>approxB64SinceCommit = 0, activeResponse = True\<rparr>,
        new_connection\<lparr>to_client := [Transcript Final ''a'']\<rparr>)
   \<and> body_step (\<lparr>approxB64SinceCommit = 0, activeResponse = True\<rparr>,
                 new_connection\<lparr>to_client := [Transcript Final ''a'']\<rparr>)
        (JObj [(''type'', JStr ''response.text.delta''), (''delta'', JStr ''b'')])
     = (\<lparr>approxB64SinceCommit = 0, activeResponse = True\<rparr>,
        new_connection\<lparr>to_client := [Transcript Final ''a'', Transcript Interim ''b'']\<rparr>)"
proof -
  have lines: "nonblank_lines [CHR ''P'', CHR 0x0A, CHR ''D'', CHR 0x0A, CHR ''#'']
               = [''P'', ''D'', ''#'']"
    by (simp add: nonblank_lines_def js_trim_def js_is_space_def)
  have pt: "part_text (JObj [(''type'', JStr ''response.content_part.done''),
                             (''part'', JObj [(''text'', JStr ''a'')])]) = ''a''"
    by (simp add: part_text_def)
  have tr: "js_trim ''a'' = ''a''"
    by (simp add: js_trim_def js_is_space_def)
  show ?thesis
    unfolding openai_on_message_def lines
    by (simp add: provider_event_def pt tr body_step_def interim_of_def string_or_empty_def
        send_interim_def client_send_def new_connection_def)
qed

text \<open>
  C5, amended. When a line of a batch does not parse, no later line has any effect (the
  handler does what it does on the lines before that line) and the sockets are not
  closed; and when every line before it parses and none of their events ends the
  handler, every line before it is processed, in order, each by the loop body on the
  state its predecessor left.
\<close>

theorem parse_failure_aborts_batch:
  assumes "nonblank_lines data = pre @ bad # post" and "parse bad = None"
  shows "openai_on_message parse data (g, cn) = openai_lines parse pre (g, cn)
         \<and> sockets_closed (snd (openai_on_message parse data (g, cn))) = sockets_closed cn
         \<and> (map parse pre = map Some ms \<and> all_continue ms (g, cn) \<longrightarrow>
              openai_on_message parse data (g, cn) = foldl body_step (g, cn) ms)"
proof -
  have cut: "openai_lines parse (pre @ bad # post) (g, cn) = openai_lines parse pre (g, cn)"
    by (rule openai_lines_cut) (simp add: assms(2))
  have "openai_lines parse (pre @ bad # post) (g, cn) = foldl body_step (g, cn) ms"
    if "map parse pre = map Some ms" "all_continue ms (g, cn)"
    using openai_lines_through [OF that, of "bad # post"] by (simp add: assms(2))
  then show ?thesis
    using cut openai_lines_frame [of parse pre "(g, cn)"]
    by (simp add: openai_on_message_def assms(1))
qed

theorem parse_failure_aborts_batch_witness:
  "openai_on_message
     (\<lambda>l. if l = ''D''
          then Some (JObj [(''type'', JStr ''response.text.delta''), (''delta'', JStr ''hi'')])
          else if l = ''E''
          then Some (JObj [(''type'', JStr ''response.created'')])
          else None)
     [CHR ''D'', CHR 0x0A, CHR ''E'', CHR 0x0A, CHR ''D'', CHR 0x0A, CHR ''#'', CHR 0x0A, CHR ''D'']
     (\<lparr>approxB64SinceCommit = 0, activeResponse = False\<rparr>, new_connection)
   = (\<lparr>approxB64SinceCommit = 0, activeResponse = True\<rparr>,
      new_connection\<lparr>to_client := [Transcript Interim ''hi'', Transcript Interim ''hi'']\<rparr>)"
proof -
  define D where "D = JObj [(''type'', JStr ''response.text.delta''), (''delta'', JStr ''hi'')]"
  define E where "E = JObj [(''type'', JStr ''response.created'')]"
  define parse where "parse = (\<lambda>l. if l = ''D'' then Some D else if l = ''E'' then Some E
                                   else None)"
  define g0 where "g0 = \<lparr>approxB64SinceCommit = 0, activeResponse = False\<rparr>"
  have lines: "nonblank_lines
                 [CHR ''D'', CHR 0x0A, CHR ''E'', CHR 0x0A, CHR ''D'', CHR 0x0A, CHR ''#'',
                  CHR 0x0A, CHR ''D'']
               = [''D'', ''E'', ''D''] @ ''#'' # [''D'']"
    by (simp add: nonblank_lines_def js_trim_def js_is_space_def)
  have bad: "parse ''#'' = None"
    by (simp add: parse_def)
  have mp: "map parse [''D'', ''E'', ''D''] = map Some [D, E, D]"
    by (simp add: parse_def)
  have d: "provider_event D (g, cn)
           = (Next, g, cn\<lparr>to_client := to_client cn @ [Transcript Interim ''hi'']\<rparr>)" for g cn
    by (simp add: D_def provider_event_def interim_of_def string_or_empty_def send_interim_def
        client_send_def)
  have e: "provider_event E (g, cn) = (Next, g\<lparr>activeResponse := True\<rparr>, cn)" for g cn
    by (simp add: E_def provider_event_def)
  have cont: "all_continue [D, E, D] (g0, new_connection)"
    by (simp add: body_step_def d e)
  have run: "foldl body_step (g0, new_connection) [D, E, D]
             = (\<lparr>approxB64SinceCommit = 0, activeResponse = True\<rparr>,
                new_connection\<lparr>to_client := [Transcript Interim ''hi'', Transcript Interim ''hi'']\<rparr>)"
    by (simp add: body_step_def d e g0_def new_connection_def)
  from parse_failure_aborts_batch
      [where parse = parse and g = g0 and cn = new_connection and ms = "[D, E, D]",
        OF lines bad] mp cont
  have "openai_on_message parse
          [CHR ''D'', CHR 0x0A, CHR ''E'', CHR 0x0A, CHR ''D'', CHR 0x0A, CHR ''#'',
           CHR 0x0A, CHR ''D''] (g0, new_connection)
        = foldl body_step (g0, new_connection) [D, E, D]"
    by blast
  then have "openai_on_message parse
          [CHR ''D'', CHR 0x0A, CHR ''E'', CHR 0x0A, CHR ''D'', CHR 0x0A, CHR ''#'',
           CHR 0x0A, CHR ''D''] (g0, new_connection)
        = (\<lparr>approxB64SinceCommit = 0, activeResponse = True\<rparr>,
           new_connection\<lparr>to_client := [Transcript Interim ''hi'', Transcript Interim ''hi'']\<rparr>)"
    by (simp only: run)
  then show ?thesis
    unfolding parse_def D_def E_def g0_def .
qed

lemma provider_event_error:
  assumes "get_prop m ''type'' = Some (JStr ''error'')
           \<or> get_prop m ''type'' = Some (JStr ''response.error'')"
  shows "provider_event m st = (Return, st)"
proof -
  from assms obtain kvs where m: "m = JObj kvs"
    using get_prop_Some_obj by blast
  obtain g cn where st: "st = (g, cn)" by (cases st)
  from assms show ?thesis
    unfolding st m by (auto simp: provider_event_def)
qed

text \<open>
  C6. An event of type \<open>error\<close> or \<open>response.error\<close> sends nothing to the client and
  changes nothing; in a batch, the handler does what it does on the lines before it, so
  nothing of the error event reaches any transcript message.
\<close>

theorem error_event_not_forwarded:
  assumes "get_prop m ''type'' = Some (JStr ''error'')
           \<or> get_prop m ''type'' = Some (JStr ''response.error'')"
  shows "provider_event m (g, cn) = (Return, g, cn)
         \<and> (parse l = Some m \<longrightarrow>
              openai_lines parse (pre @ l # post) (g, cn) = openai_lines parse pre (g, cn))"
proof -
  have ev: "provider_event m st = (Return, st)" for st
    by (rule provider_event_error [OF assms])
  have "openai_lines parse (pre @ l # post) (g, cn) = openai_lines parse pre (g, cn)"
    if "parse l = Some m"
    by (rule openai_lines_cut) (simp add: that ev)
  then show ?thesis using ev by simp
qed

theorem error_event_not_forwarded_witness:
  "provider_event (JObj [(''type'', JStr ''error''), (''message'', JStr ''boom'')])
     (\<lparr>approxB64SinceCommit = 0, activeResponse = True\<rparr>, new_connection)
   = (Return, \<lparr>approxB64SinceCommit = 0, activeResponse = True\<rparr>, new_connection)
   \<and> to_client (snd (openai_lines
        (\<lambda>l. Some (JObj [(''type'', JStr ''error''), (''message'', JStr ''boom'')]))
        ([] @ ''e'' # [''e''])
        (\<lparr>approxB64SinceCommit = 0, activeResponse = True\<rparr>, new_connection))) = []"
  using error_event_not_forwarded
    [where m = "JObj [(''type'', JStr ''error''), (''message'', JStr ''boom'')]"
      and parse = "\<lambda>l. Some (JObj [(''type'', JStr ''error''), (''message'', JStr ''boom'')])"
      and l = "''e''" and pre = "[]" and post = "[''e'']"
      and g = "\<lparr>approxB64SinceCommit = 0, activeResponse = True\<rparr>" and cn = new_connection]
  by (simp add: new_connection_def)

lemma js_trim_Nil [simp]: "js_trim [] = []"
  by (simp add: js_trim_def)

lemma part_carries_text:
  assumes "part_carries m t"
  shows "part_text m = t"
proof -
  obtain kvs where p: "get_prop m ''part'' = Some (JObj kvs)"
  proof (cases "get_prop m ''part''")
    case None
    with assms show ?thesis by (simp add: part_carries_def)
  next
    case (Some v)
    with assms that show ?thesis by (cases v) (simp_all add: part_carries_def)
  qed
  have pc: "(case as_string (map_of kvs ''text'') of
             Some s \<Rightarrow> s = t
           | None \<Rightarrow>
              (case as_string (map_of kvs ''content'') of
                 Some s \<Rightarrow> s = t
               | None \<Rightarrow> as_string (map_of kvs ''transcript'') = Some t))"
    using assms by (simp add: part_carries_def p)
  show ?thesis
  proof (cases "as_string (map_of kvs ''text'')")
    case (Some s)
    with pc show ?thesis by (simp add: part_text_def p Let_def)
  next
    case None
    note no_text = this
    show ?thesis
    proof (cases "as_string (map_of kvs ''content'')")
      case (Some s)
      with pc no_text show ?thesis by (simp add: part_text_def p Let_def)
    next
      case None
      with pc no_text show ?thesis by (simp add: part_text_def p Let_def)
    qed
  qed
qed

lemma provider_event_delta:
  assumes "delta_shaped m t" and "t \<noteq> []"
  shows "provider_event m (g, cn) = (Next, g, client_send (Transcript Interim t) cn)"
proof -
  from assms(1) obtain kvs where m: "m = JObj kvs"
    by (cases m) (simp_all add: delta_shaped_def)
  consider
      (plain) "map_of kvs ''type'' = Some (JStr ''response.audio_transcript.delta'')
               \<or> map_of kvs ''type'' = Some (JStr ''response.text.delta'')
               \<or> map_of kvs ''type'' = Some (JStr ''response.output_text.delta'')"
        "map_of kvs ''delta'' = Some (JStr t)"
    | (nested) d where "map_of kvs ''type'' = Some (JStr ''response.delta'')"
        "map_of kvs ''delta'' = Some d"
        "get_prop d ''type'' = Some (JStr ''output_text.delta'')"
        "get_prop d ''text'' = Some (JStr t)"
    | (part) "map_of kvs ''type'' = Some (JStr ''response.content_part.added'')"
        "part_carries m t"
    using assms(1) unfolding m delta_shaped_def Let_def
    by (auto split: if_splits option.splits)
  then show ?thesis
  proof cases
    case plain
    then show ?thesis
      using assms(2) unfolding m
      by (auto simp: provider_event_def interim_of_def string_or_empty_def send_interim_def)
  next
    case nested
    then show ?thesis
      using assms(2) unfolding m
      by (simp add: provider_event_def interim_of_def string_or_empty_def send_interim_def)
  next
    case part
    from part_carries_text [OF part(2)] part(1) assms(2) show ?thesis
      unfolding m by (simp add: provider_event_def send_interim_def)
  qed
qed

lemma provider_event_done:
  assumes "done_shaped m t" and "js_trim t \<noteq> []"
  shows "provider_event m (g, cn)
         = (if get_prop m ''type'' = Some (JStr ''response.content_part.done'')
            then Return else Next,
            g, client_send (Transcript Final (js_trim t)) cn)"
proof -
  from assms(1) obtain kvs where m: "m = JObj kvs"
    by (cases m) (simp_all add: done_shaped_def)
  from assms(2) have t: "t \<noteq> []" by auto
  consider
      (plain) "map_of kvs ''type'' = Some (JStr ''response.audio_transcript.done'')
               \<or> map_of kvs ''type'' = Some (JStr ''response.text.done'')
               \<or> map_of kvs ''type'' = Some (JStr ''response.output_text.done'')"
        "map_of kvs ''text'' = Some (JStr t)"
    | (part) "map_of kvs ''type'' = Some (JStr ''response.content_part.done'')"
        "part_carries m t"
    using assms(1) unfolding m done_shaped_def Let_def
    by (auto split: if_splits)
  then show ?thesis
  proof cases
    case plain
    then show ?thesis
      using assms(2) t unfolding m
      by (auto simp: provider_event_def final_of_def string_or_empty_def send_final_def)
  next
    case part
    from part_carries_text [OF part(2)] part(1) t show ?thesis
      unfolding m by (simp add: provider_event_def)
  qed
qed

text \<open>
  C4, as the claim states it, at two events. A \<open>response.text.done\<close> event whose text
  is two spaces: the claim has a final transcript message with the trimmed (empty) text
  forwarded; the handler forwards nothing. And a text delta \<open>b\<close> on the line after a
  \<open>content_part.done\<close> event in the same provider message: the claim has one interim
  message forwarded for it; the handler has returned after the line before it and
  forwards nothing for the delta.
\<close>

theorem blank_done_event_counterexample:
  "done_shaped (JObj [(''type'', JStr ''response.text.done''), (''text'', JStr ''  '')]) ''  ''
   \<and> to_client (snd (snd (provider_event
         (JObj [(''type'', JStr ''response.text.done''), (''text'', JStr ''  '')])
         (\<lparr>approxB64SinceCommit = 0, activeResponse = True\<rparr>, new_connection))))
       \<noteq> to_client new_connection @ [Transcript Final (js_trim ''  '')]
   \<and> to_client (snd (snd (provider_event
         (JObj [(''type'', JStr ''response.text.done''), (''text'', JStr ''  '')])
         (\<lparr>approxB64SinceCommit = 0, activeResponse = True\<rparr>, new_connection))))
       = to_client new_connection
   \<and> delta_shaped (JObj [(''type'', JStr ''response.text.delta''), (''delta'', JStr ''b'')]) ''b''
   \<and> to_client (snd (openai_on_message
         (\<lambda>l. if l = ''P''
              then Some (JObj [(''type'', JStr ''response.content_part.done''),
                               (''part'', JObj [(''text'', JStr ''a'')])])
              else Some (JObj [(''type'', JStr ''response.text.delta''), (''delta'', JStr ''b'')]))
         [CHR ''P'', CHR 0x0A, CHR ''D'']
         (\<lparr>approxB64SinceCommit = 0, activeResponse = True\<rparr>, new_connection)))
       = [Transcript Final ''a'']"
proof -
  have lines: "nonblank_lines [CHR ''P'', CHR 0x0A, CHR ''D''] = [''P'', ''D'']"
    by (simp add: nonblank_lines_def js_trim_def js_is_space_def)
  have pt: "part_text (JObj [(''type'', JStr ''response.content_part.done''),
                             (''part'', JObj [(''text'', JStr ''a'')])]) = ''a''"
    by (simp add: part_text_def)
  have tr: "js_trim ''a'' = ''a''"
    by (simp add: js_trim_def js_is_space_def)
  have batch: "to_client (snd (openai_on_message
         (\<lambda>l. if l = ''P''
              then Some (JObj [(''type'', JStr ''response.content_part.done''),
                               (''part'', JObj [(''text'', JStr ''a'')])])
              else Some (JObj [(''type'', JStr ''response.text.delta''), (''delta'', JStr ''b'')]))
         [CHR ''P'', CHR 0x0A, CHR ''D'']
         (\<lparr>approxB64SinceCommit = 0, activeResponse = True\<rparr>, new_connection)))
       = [Transcript Final ''a'']"
    unfolding openai_on_message_def lines
    by (simp add: provider_event_def pt tr client_send_def new_connection_def)
  have blank: "to_client (snd (snd (provider_event
         (JObj [(''type'', JStr ''response.text.done''), (''text'', JStr ''  '')])
         (\<lparr>approxB64SinceCommit = 0, activeResponse = True\<rparr>, new_connection))))
       = to_client new_connection"
    by (simp add: provider_event_def final_of_def string_or_empty_def
        send_final_def js_trim_def js_is_space_def)
  show ?thesis
    using batch blank by (simp add: done_shaped_def delta_shaped_def)
qed

text \<open>
  C4, amended. Take a provider message and one of its non-blank lines such that every
  line before it parses and none of their events ends the handler, so that the loop
  reaches the line. If the line is a delta-shaped event carrying a non-empty text \<open>t\<close>,
  the handler sends exactly one interim transcript message with the text \<open>t\<close> unchanged
  for it, after the messages of the lines before and before those of the lines after. If
  it is a done-shaped event carrying a text \<open>t\<close> whose trimmed form is not empty, the
  handler sends exactly one final transcript message with the trimmed text for it. An
  interim-shaped event with text \<open>hel\<close> followed by a done-shaped event with text
  \<open> lo \<close>, in one provider message or in two, gives the interim fragment \<open>hel\<close> and
  the final fragment \<open>lo\<close>.
\<close>

theorem normalizer_forwards_text:
  "(nonblank_lines data = pre @ l # post \<and> map parse pre = map Some ms
      \<and> all_continue ms (g, cn) \<and> parse l = Some m \<and> delta_shaped m t \<and> t \<noteq> [] \<longrightarrow>
      (case foldl body_step (g, cn) ms of
         (g1, cn1) \<Rightarrow>
           openai_on_message parse data (g, cn)
           = openai_lines parse post (g1, client_send (Transcript Interim t) cn1)))
   \<and> (nonblank_lines data = pre @ l # post \<and> map parse pre = map Some ms
      \<and> all_continue ms (g, cn) \<and> parse l = Some m \<and> done_shaped m t \<and> js_trim t \<noteq> [] \<longrightarrow>
      (case foldl body_step (g, cn) ms of
         (g1, cn1) \<Rightarrow>
           openai_on_message parse data (g, cn)
           = (if get_prop m ''type'' = Some (JStr ''response.content_part.done'')
              then (g1, client_send (Transcript Final (js_trim t)) cn1)
              else openai_lines parse post
                     (g1, client_send (Transcript Final (js_trim t)) cn1))))
   \<and> (parse l1 = Some m1 \<and> delta_shaped m1 ''hel''
       \<and> parse l2 = Some m2 \<and> done_shaped m2 '' lo '' \<longrightarrow>
      (nonblank_lines data = [l1, l2] \<longrightarrow>
         openai_on_message parse data (g, cn)
         = (g, cn\<lparr>to_client := to_client cn
                     @ [Transcript Interim ''hel'', Transcript Final ''lo'']\<rparr>))
      \<and> (nonblank_lines d1 = [l1] \<and> nonblank_lines d2 = [l2] \<longrightarrow>
         openai_on_message parse d2 (openai_on_message parse d1 (g, cn))
         = (g, cn\<lparr>to_client := to_client cn
                     @ [Transcript Interim ''hel'', Transcript Final ''lo'']\<rparr>)))"
proof -
  have lo: "js_trim '' lo '' = ''lo''"
    by (simp add: js_trim_def js_is_space_def)
  have delta_line: "openai_lines parse (l # post) (g1, cn1)
        = openai_lines parse post (g1, client_send (Transcript Interim t) cn1)"
    if "parse l = Some m" "delta_shaped m t" "t \<noteq> []" for l post g1 cn1 m t
    using that provider_event_delta [OF that(2,3), of g1 cn1] by simp
  have done_line: "openai_lines parse (l # post) (g1, cn1)
        = (if get_prop m ''type'' = Some (JStr ''response.content_part.done'')
           then (g1, client_send (Transcript Final (js_trim t)) cn1)
           else openai_lines parse post (g1, client_send (Transcript Final (js_trim t)) cn1))"
    if "parse l = Some m" "done_shaped m t" "js_trim t \<noteq> []" for l post g1 cn1 m t
    using that provider_event_done [OF that(2,3), of g1 cn1] by simp
  have reach: "openai_on_message parse data (g, cn)
        = openai_lines parse (l # post) (foldl body_step (g, cn) ms)"
    if "nonblank_lines data = pre @ l # post" "map parse pre = map Some ms"
      "all_continue ms (g, cn)"
    using openai_lines_through [OF that(2,3), of "l # post"]
    by (simp add: openai_on_message_def that(1))
  have first: "case foldl body_step (g, cn) ms of
         (g1, cn1) \<Rightarrow>
           openai_on_message parse data (g, cn)
           = openai_lines parse post (g1, client_send (Transcript Interim t) cn1)"
    if "nonblank_lines data = pre @ l # post" "map parse pre = map Some ms"
      "all_continue ms (g, cn)" "parse l = Some m" "delta_shaped m t" "t \<noteq> []"
    using reach [OF that(1-3)] delta_line [OF that(4-6)]
    by (cases "foldl body_step (g, cn) ms") simp
  have second: "case foldl body_step (g, cn) ms of
         (g1, cn1) \<Rightarrow>
           openai_on_message parse data (g, cn)
           = (if get_prop m ''type'' = Some (JStr ''response.content_part.done'')
              then (g1, client_send (Transcript Final (js_trim t)) cn1)
              else openai_lines parse post
                     (g1, client_send (Transcript Final (js_trim t)) cn1))"
    if "nonblank_lines data = pre @ l # post" "map parse pre = map Some ms"
      "all_continue ms (g, cn)" "parse l = Some m" "done_shaped m t" "js_trim t \<noteq> []"
    using reach [OF that(1-3)] done_line [OF that(4-6)]
    by (cases "foldl body_step (g, cn) ms") simp
  have ex1: "openai_lines parse [l1] (g, cn) = (g, client_send (Transcript Interim ''hel'') cn)"
    if "parse l1 = Some m1" "delta_shaped m1 ''hel''" for g cn
    using delta_line [OF that, of "[]" g cn] by simp
  have ex2: "openai_lines parse [l2] (g, cn) = (g, client_send (Transcript Final ''lo'') cn)"
    if "parse l2 = Some m2" "done_shaped m2 '' lo ''" for g cn
    using done_line [OF that, of "[]" g cn] by (simp add: lo)
  have ex12: "openai_lines parse [l1, l2] (g, cn)
        = (g, client_send (Transcript Final ''lo'') (client_send (Transcript Interim ''hel'') cn))"
    if "parse l1 = Some m1" "delta_shaped m1 ''hel''" "parse l2 = Some m2"
      "done_shaped m2 '' lo ''"
    using delta_line [OF that(1,2), of "[l2]" g cn] ex2 [OF that(3,4)] by simp
  have third: "(nonblank_lines data = [l1, l2] \<longrightarrow>
         openai_on_message parse data (g, cn)
         = (g, cn\<lparr>to_client := to_client cn
                     @ [Transcript Interim ''hel'', Transcript Final ''lo'']\<rparr>))
      \<and> (nonblank_lines d1 = [l1] \<and> nonblank_lines d2 = [l2] \<longrightarrow>
         openai_on_message parse d2 (openai_on_message parse d1 (g, cn))
         = (g, cn\<lparr>to_client := to_client cn
                     @ [Transcript Interim ''hel'', Transcript Final ''lo'']\<rparr>))"
    if "parse l1 = Some m1" "delta_shaped m1 ''hel''" "parse l2 = Some m2"
      "done_shaped m2 '' lo ''"
    using ex12 [OF that] ex1 [OF that(1,2)] ex2 [OF that(3,4)]
    by (simp add: openai_on_message_def client_send_def)
  show ?thesis
  proof (intro conjI impI; elim conjE)
    assume "nonblank_lines data = pre @ l # post" "map parse pre = map Some ms"
      "all_continue ms (g, cn)" "parse l = Some m" "delta_shaped m t" "t \<noteq> []"
    then show "case foldl body_step (g, cn) ms of
         (g1, cn1) \<Rightarrow>
           openai_on_message parse data (g, cn)
           = openai_lines parse post (g1, client_send (Transcript Interim t) cn1)"
      by (rule first)
  next
    assume "nonblank_lines data = pre @ l # post" "map parse pre = map Some ms"
      "all_continue ms (g, cn)" "parse l = Some m" "done_shaped m t" "js_trim t \<noteq> []"
    then show "case foldl body_step (g, cn) ms of
         (g1, cn1) \<Rightarrow>
           openai_on_message parse data (g, cn)
           = (if get_prop m ''type'' = Some (JStr ''response.content_part.done'')
              then (g1, client_send (Transcript Final (js_trim t)) cn1)
              else openai_lines parse post
                     (g1, client_send (Transcript Final (js_trim t)) cn1))"
      by (rule second)
  next
    assume "parse l1 = Some m1" "delta_shaped m1 ''hel''" "parse l2 = Some m2"
      "done_shaped m2 '' lo ''" "nonblank_lines data = [l1, l2]"
    with third show "openai_on_message parse data (g, cn)
         = (g, cn\<lparr>to_client := to_client cn
                     @ [Transcript Interim ''hel'', Transcript Final ''lo'']\<rparr>)"
      by blast
  next
    assume "parse l1 = Some m1" "delta_shaped m1 ''hel''" "parse l2 = Some m2"
      "done_shaped m2 '' lo ''" "nonblank_lines d1 = [l1]" "nonblank_lines d2 = [l2]"
    with third show "openai_on_message parse d2 (openai_on_message parse d1 (g, cn))
         = (g, cn\<lparr>to_client := to_client cn
                     @ [Transcript Interim ''hel'', Transcript Final ''lo'']\<rparr>)"
      by blast
  qed
qed

theorem normalizer_forwards_text_witness:
  "openai_on_message
     (\<lambda>l. if l = ''E'' then Some (JObj [(''type'', JStr ''response.created'')])
          else if l = ''1''
          then Some (JObj [(''type'', JStr ''response.audio_transcript.delta''),
                           (''delta'', JStr ''hel'')])
          else Some (JObj [(''type'', JStr ''response.content_part.done''),
                           (''part'', JObj [(''text'', JNull), (''transcript'', JStr '' lo '')])]))
     [CHR ''E'', CHR 0x0A, CHR ''1'', CHR 0x0A, CHR ''2'']
     (\<lparr>approxB64SinceCommit = 0, activeResponse = False\<rparr>, new_connection)
   = (\<lparr>approxB64SinceCommit = 0, activeResponse = True\<rparr>,
      new_connection\<lparr>to_client := [Transcript Interim ''hel'', Transcript Final ''lo'']\<rparr>)
   \<and> openai_on_message
     (\<lambda>l. if l = ''1''
          then Some (JObj [(''type'', JStr ''response.text.delta''), (''delta'', JStr ''hel'')])
          else Some (JObj [(''type'', JStr ''response.text.done''), (''text'', JStr '' lo '')]))
     [CHR ''1'', CHR 0x0A, CHR ''2'']
     (\<lparr>approxB64SinceCommit = 0, activeResponse = True\<rparr>, new_connection)
   = (\<lparr>approxB64SinceCommit = 0, activeResponse = True\<rparr>,
      new_connection\<lparr>to_client := [Transcript Interim ''hel'', Transcript Final ''lo'']\<rparr>)"
proof -
  define E where "E = JObj [(''type'', JStr ''response.created'')]"
  define A where "A = JObj [(''type'', JStr ''response.audio_transcript.delta''),
                           (''delta'', JStr ''hel'')]"
  define P where "P = JObj [(''type'', JStr ''response.content_part.done''),
                           (''part'', JObj [(''text'', JNull), (''transcript'', JStr '' lo '')])]"
  define parse where "parse = (\<lambda>l. if l = ''E'' then Some E else if l = ''1'' then Some A
                                   else Some P)"
  define g0 where "g0 = \<lparr>approxB64SinceCommit = 0, activeResponse = False\<rparr>"
  define g1 where "g1 = \<lparr>approxB64SinceCommit = 0, activeResponse = True\<rparr>"
  have lo: "js_trim '' lo '' = ''lo''"
    by (simp add: js_trim_def js_is_space_def)
  have lines3: "nonblank_lines [CHR ''E'', CHR 0x0A, CHR ''1'', CHR 0x0A, CHR ''2'']
                = [''E''] @ ''1'' # [''2'']"
    and lines3': "nonblank_lines [CHR ''E'', CHR 0x0A, CHR ''1'', CHR 0x0A, CHR ''2'']
                = [''E'', ''1''] @ ''2'' # []"
    and lines2: "nonblank_lines [CHR ''1'', CHR 0x0A, CHR ''2''] = [''1'', ''2'']"
    by (simp_all add: nonblank_lines_def js_trim_def js_is_space_def)
  have e: "provider_event E (g, cn) = (Next, g\<lparr>activeResponse := True\<rparr>, cn)" for g cn
    by (simp add: E_def provider_event_def)
  have a: "provider_event A (g, cn)
           = (Next, g, cn\<lparr>to_client := to_client cn @ [Transcript Interim ''hel'']\<rparr>)" for g cn
    by (simp add: A_def provider_event_def interim_of_def string_or_empty_def send_interim_def
        client_send_def)
  have dA: "delta_shaped A ''hel''"
    by (simp add: A_def delta_shaped_def)
  have dP: "done_shaped P '' lo ''"
    by (simp add: P_def done_shaped_def part_carries_def)
  have tyP: "get_prop P ''type'' = Some (JStr ''response.content_part.done'')"
    by (simp add: P_def)
  have cont: "all_continue [E, A] (g0, new_connection)"
    by (simp add: body_step_def e a)
  have run: "foldl body_step (g0, new_connection) [E, A]
             = (g1, new_connection\<lparr>to_client := [Transcript Interim ''hel'']\<rparr>)"
    by (simp add: body_step_def e a g0_def g1_def new_connection_def)
  have mp: "map parse [''E'', ''1''] = map Some [E, A]" and p2: "parse ''2'' = Some P"
    by (simp_all add: parse_def)
  from normalizer_forwards_text
      [where parse = parse and data = "[CHR ''E'', CHR 0x0A, CHR ''1'', CHR 0x0A, CHR ''2'']"
        and pre = "[''E'', ''1'']" and l = "''2''" and post = "[]" and ms = "[E, A]"
        and g = g0 and cn = new_connection and m = P and t = "'' lo ''"]
      lines3' mp cont p2 dP
  have "case foldl body_step (g0, new_connection) [E, A] of
         (g1, cn1) \<Rightarrow>
           openai_on_message parse
             [CHR ''E'', CHR 0x0A, CHR ''1'', CHR 0x0A, CHR ''2''] (g0, new_connection)
           = (if get_prop P ''type'' = Some (JStr ''response.content_part.done'')
              then (g1, client_send (Transcript Final (js_trim '' lo '')) cn1)
              else openai_lines parse []
                     (g1, client_send (Transcript Final (js_trim '' lo '')) cn1))"
    by (simp add: lo)
  then have first: "openai_on_message parse
                 [CHR ''E'', CHR 0x0A, CHR ''1'', CHR 0x0A, CHR ''2''] (g0, new_connection)
               = (g1, new_connection\<lparr>to_client := [Transcript Interim ''hel'',
                                                       Transcript Final ''lo'']\<rparr>)"
    unfolding run by (simp add: tyP lo client_send_def new_connection_def)
  have second: "openai_on_message
     (\<lambda>l. if l = ''1''
          then Some (JObj [(''type'', JStr ''response.text.delta''), (''delta'', JStr ''hel'')])
          else Some (JObj [(''type'', JStr ''response.text.done''), (''text'', JStr '' lo '')]))
     [CHR ''1'', CHR 0x0A, CHR ''2''] (g1, new_connection)
   = (g1, new_connection\<lparr>to_client := [Transcript Interim ''hel'', Transcript Final ''lo'']\<rparr>)"
    using normalizer_forwards_text
      [where parse = "\<lambda>l. if l = ''1''
          then Some (JObj [(''type'', JStr ''response.text.delta''), (''delta'', JStr ''hel'')])
          else Some (JObj [(''type'', JStr ''response.text.done''), (''text'', JStr '' lo '')])"
        and data = "[CHR ''1'', CHR 0x0A, CHR ''2'']"
        and ?l1.0 = "''1''" and ?l2.0 = "''2''"
        and ?m1.0 = "JObj [(''type'', JStr ''response.text.delta''), (''delta'', JStr ''hel'')]"
        and ?m2.0 = "JObj [(''type'', JStr ''response.text.done''), (''text'', JStr '' lo '')]"
        and g = g1 and cn = new_connection]
      lines2
    by (simp add: delta_shaped_def done_shaped_def new_connection_def)
  from first second show ?thesis
    unfolding parse_def E_def A_def P_def g0_def g1_def by simp
qed

end
